theory Spec2Isabelle
  imports Complex_Main
begin

section \<open>JavaScript numbers\<close>

text \<open>
  \<^verbatim>\<open>validateAnswer\<close> converts what the player typed with \<^verbatim>\<open>Number()\<close> and compares
  doubles, so the conversion and the arithmetic of IEEE 754 binary64 are part of what it
  computes. A finite double is the real number it denotes; negative zero is the same
  value as zero, which subtraction, \<^verbatim>\<open>Math.abs\<close>, \<^verbatim>\<open>isNaN\<close> and \<^verbatim>\<open><\<close> cannot tell
  apart anyway.
\<close>

datatype double = NaN | PosInfinity | NegInfinity | Finite real

definition pow2 :: "int \<Rightarrow> real" where
  "pow2 e = (if e \<ge> 0 then 2 ^ nat e else 1 / 2 ^ nat (- e))"

text \<open>The number of binary digits of a positive integer.\<close>

function bit_length :: "int \<Rightarrow> int" where
  "bit_length n = (if n \<le> 0 then 0 else 1 + bit_length (n div 2))"
  by pat_completeness auto
termination
  by (relation "measure nat") auto

declare bit_length.simps [simp del]

text \<open>The exponent \<open>e\<close> with \<open>2 ^ e \<le> x < 2 ^ (e + 1)\<close>, for a positive \<open>x\<close>.\<close>

definition floor_log2 :: "real \<Rightarrow> int" where
  "floor_log2 x = (if x \<ge> 1 then bit_length \<lfloor>x\<rfloor> - 1 else - bit_length (\<lceil>1 / x\<rceil> - 1))"

definition round_half_even :: "real \<Rightarrow> int" where
  "round_half_even q =
     (let f = \<lfloor>q\<rfloor>; d = q - of_int f
      in if d < 1 / 2 then f
         else if d > 1 / 2 then f + 1
         else if even f then f else f + 1)"

text \<open>
  Rounding a real to the nearest double, ties to the even significand: 53 significant
  bits, the spacing never below \<open>2 ^ -1074\<close> (subnormal numbers), and a result that
  reaches \<open>2 ^ 1024\<close> is an infinity.
\<close>

definition round_to_double :: "real \<Rightarrow> double" where
  "round_to_double x =
     (if x = 0 then Finite 0
      else (let u = pow2 (max (floor_log2 \<bar>x\<bar>) (- 1022) - 52);
                y = of_int (round_half_even (\<bar>x\<bar> / u)) * u
            in if y \<ge> pow2 1024 then (if x > 0 then PosInfinity else NegInfinity)
               else Finite (sgn x * y)))"

text \<open>The reals that are doubles: rounding leaves them as they are.\<close>

definition is_double :: "real \<Rightarrow> bool" where
  "is_double x \<longleftrightarrow> round_to_double x = Finite x"

fun double_sub :: "double \<Rightarrow> double \<Rightarrow> double" where
  "double_sub NaN _ = NaN"
| "double_sub _ NaN = NaN"
| "double_sub (Finite x) (Finite y) = round_to_double (x - y)"
| "double_sub (Finite x) PosInfinity = NegInfinity"
| "double_sub (Finite x) NegInfinity = PosInfinity"
| "double_sub PosInfinity PosInfinity = NaN"
| "double_sub NegInfinity NegInfinity = NaN"
| "double_sub PosInfinity _ = PosInfinity"
| "double_sub NegInfinity _ = NegInfinity"

fun double_abs :: "double \<Rightarrow> double" where
  "double_abs NaN = NaN"
| "double_abs PosInfinity = PosInfinity"
| "double_abs NegInfinity = PosInfinity"
| "double_abs (Finite x) = Finite \<bar>x\<bar>"

fun double_less :: "double \<Rightarrow> double \<Rightarrow> bool" where
  "double_less NaN _ = False"
| "double_less _ NaN = False"
| "double_less (Finite x) (Finite y) = (x < y)"
| "double_less _ NegInfinity = False"
| "double_less PosInfinity _ = False"
| "double_less NegInfinity _ = True"
| "double_less _ PosInfinity = True"

definition isNaN :: "double \<Rightarrow> bool" where
  "isNaN x \<longleftrightarrow> x = NaN"

subsection \<open>Number() on a string\<close>

text \<open>
  The grammar \<^verbatim>\<open>StringNumericLiteral\<close> of ECMAScript: optional white space around a
  decimal literal (optional sign; \<^verbatim>\<open>Infinity\<close>, or digits with an optional fraction and
  an optional exponent) or around a binary, octal or hexadecimal integer literal. The
  empty and the all-blank string convert to 0, a string outside the grammar to
  \<^verbatim>\<open>NaN\<close>. A character here is a code unit below 256, so the white space characters
  are tab, line feed, vertical tab, form feed, carriage return, space and no-break space.
  The value of a long literal is rounded correctly (the standard also allows an
  implementation to cut a literal after its twentieth significant digit).
\<close>

definition is_white_space :: "char \<Rightarrow> bool" where
  "is_white_space c \<longleftrightarrow> (of_char c :: int) \<in> {9, 10, 11, 12, 13, 32, 160}"

definition trim_white_space :: "string \<Rightarrow> string" where
  "trim_white_space s = rev (dropWhile is_white_space (rev (dropWhile is_white_space s)))"

definition digit_of :: "char \<Rightarrow> int option" where
  "digit_of c =
     (let n = (of_char c :: int)
      in if 48 \<le> n \<and> n \<le> 57 then Some (n - 48)
         else if 97 \<le> n \<and> n \<le> 102 then Some (n - 87)
         else if 65 \<le> n \<and> n \<le> 70 then Some (n - 55)
         else None)"

definition is_digits :: "int \<Rightarrow> string \<Rightarrow> bool" where
  "is_digits radix s \<longleftrightarrow>
     s \<noteq> [] \<and> list_all (\<lambda>c. case digit_of c of Some v \<Rightarrow> v < radix | None \<Rightarrow> False) s"

definition digits_value :: "int \<Rightarrow> string \<Rightarrow> int" where
  "digits_value radix s =
     foldl (\<lambda>n c. radix * n + (case digit_of c of Some v \<Rightarrow> v | None \<Rightarrow> 0)) 0 s"

definition pow10 :: "int \<Rightarrow> real" where
  "pow10 e = (if e \<ge> 0 then 10 ^ nat e else 1 / 10 ^ nat (- e))"

definition SignedInteger :: "string \<Rightarrow> int option" where
  "SignedInteger s =
     (case s of
        [] \<Rightarrow> None
      | c # ds \<Rightarrow>
          if c = CHR ''+'' then (if is_digits 10 ds then Some (digits_value 10 ds) else None)
          else if c = CHR ''-'' then
            (if is_digits 10 ds then Some (- digits_value 10 ds) else None)
          else if is_digits 10 s then Some (digits_value 10 s)
          else None)"

text \<open>
  The digits before the exponent: \<^verbatim>\<open>digits\<close>, \<^verbatim>\<open>digits.\<close>, \<^verbatim>\<open>digits.digits\<close> or
  \<^verbatim>\<open>.digits\<close>.
\<close>

definition mantissa_MV :: "string \<Rightarrow> real option" where
  "mantissa_MV m =
     (let ip = takeWhile (\<lambda>c. c \<noteq> CHR ''.'') m;
          rest = dropWhile (\<lambda>c. c \<noteq> CHR ''.'') m
      in if rest = [] then (if is_digits 10 ip then Some (of_int (digits_value 10 ip)) else None)
         else (let fp = tl rest
               in if is_digits 10 ip \<and> fp = [] then Some (of_int (digits_value 10 ip))
                  else if (ip = [] \<or> is_digits 10 ip) \<and> is_digits 10 fp
                  then Some (of_int (digits_value 10 ip)
                             + of_int (digits_value 10 fp) / 10 ^ length fp)
                  else None))"

definition StrUnsignedDecimalLiteral_MV :: "string \<Rightarrow> real option" where
  "StrUnsignedDecimalLiteral_MV s =
     (let m = takeWhile (\<lambda>c. c \<noteq> CHR ''e'' \<and> c \<noteq> CHR ''E'') s;
          rest = dropWhile (\<lambda>c. c \<noteq> CHR ''e'' \<and> c \<noteq> CHR ''E'') s
      in case mantissa_MV m of
           None \<Rightarrow> None
         | Some mv \<Rightarrow>
             if rest = [] then Some mv
             else (case SignedInteger (tl rest) of
                     None \<Rightarrow> None
                   | Some e \<Rightarrow> Some (mv * pow10 e)))"

definition StrDecimalLiteral :: "string \<Rightarrow> double" where
  "StrDecimalLiteral s =
     (let (negative, u) =
            (case s of
               [] \<Rightarrow> (False, s)
             | c # r \<Rightarrow>
                 if c = CHR ''+'' then (False, r)
                 else if c = CHR ''-'' then (True, r)
                 else (False, s))
      in if u = ''Infinity'' then (if negative then NegInfinity else PosInfinity)
         else (case StrUnsignedDecimalLiteral_MV u of
                 None \<Rightarrow> NaN
               | Some mv \<Rightarrow> round_to_double (if negative then - mv else mv)))"

definition NonDecimalIntegerLiteral :: "string \<Rightarrow> real option" where
  "NonDecimalIntegerLiteral s =
     (case s of
        c0 # c1 # ds \<Rightarrow>
          if c0 = CHR ''0'' then
            (let radix = (if c1 = CHR ''b'' \<or> c1 = CHR ''B'' then 2
                          else if c1 = CHR ''o'' \<or> c1 = CHR ''O'' then 8
                          else if c1 = CHR ''x'' \<or> c1 = CHR ''X'' then 16
                          else 0)
             in if is_digits radix ds then Some (of_int (digits_value radix ds)) else None)
          else None
      | _ \<Rightarrow> None)"

definition StringToNumber :: "string \<Rightarrow> double" where
  "StringToNumber s =
     (let t = trim_white_space s
      in if t = [] then Finite 0
         else (case NonDecimalIntegerLiteral t of
                 Some v \<Rightarrow> round_to_double v
               | None \<Rightarrow> StrDecimalLiteral t))"

text \<open>
  The values \<^verbatim>\<open>validateAnswer\<close> tests its first argument for: \<^verbatim>\<open>undefined\<close>,
  \<^verbatim>\<open>null\<close>, a string, or a number (its documented types are string and number).
\<close>

datatype jsvalue = JUndefined | JNull | JString string | JNumber double

fun Number :: "jsvalue \<Rightarrow> double" where
  "Number JUndefined = NaN"
| "Number JNull = Finite 0"
| "Number (JString s) = StringToNumber s"
| "Number (JNumber n) = n"

section \<open>GameState.js: the state of a Math Tug-of-War round\<close>

text \<open>
  The class \<^verbatim>\<open>GameState\<close> is a record; its methods mutate \<^verbatim>\<open>this\<close>, so
  each one is a function from the state to the updated state. JavaScript numbers that the
  program only ever uses as integers (player number, rope position, scores, counters,
  operands and answers) are \<^typ>\<open>int\<close>.
\<close>

datatype status = Idle | Playing | Paused | Ended

record Scores =
  player1 :: int
  player2 :: int

record Settings =
  difficulty :: string
  operation :: string
  timerEnabled :: bool
  timerValue :: int
  soundEnabled :: bool
  questionLimitEnabled :: bool
  questionLimit :: int
  teacherMode :: "bool option"

text \<open>
  \<^verbatim>\<open>answer\<close> is \<^verbatim>\<open>null\<close> until a question has been generated.
\<close>

record Question =
  text_of :: string
  answer :: "int option"
  operation_of :: string

record Stats =
  totalQuestions :: int
  correctAnswers :: int
  wrongAnswers :: int
  timeouts :: int

record GameState =
  currentPlayer :: int
  ropePosition :: int
  scores :: Scores
  settings :: Settings
  gameStatus :: status
  currentQuestion :: Question
  stats :: Stats

text \<open>
  The three tuning constants are fields that only \<^verbatim>\<open>reset()\<close> assigns (the
  constructor calls it), always to the same literal, so they are constants here.
\<close>

definition WIN_THRESHOLD :: int where
  "WIN_THRESHOLD = 8"

definition CORRECT_PULL_STRENGTH :: int where
  "CORRECT_PULL_STRENGTH = 2"

definition WRONG_PULL_STRENGTH :: int where
  "WRONG_PULL_STRENGTH = 1"

definition default_settings :: Settings where
  "default_settings =
     \<lparr> difficulty = ''medium'', operation = ''mixed'', timerEnabled = True,
       timerValue = 20, soundEnabled = True, questionLimitEnabled = False,
       questionLimit = 40, teacherMode = None \<rparr>"

text \<open>
  The constructor only calls \<^verbatim>\<open>reset()\<close>, which assigns every field whatever the
  state was: a fresh state and a reset one are the same value.
\<close>

definition new_GameState :: GameState where
  "new_GameState =
     \<lparr> currentPlayer = 1,
       ropePosition = 0,
       scores = \<lparr> player1 = 0, player2 = 0 \<rparr>,
       settings = default_settings,
       gameStatus = Idle,
       currentQuestion = \<lparr> text_of = '''', answer = None, operation_of = '''' \<rparr>,
       stats = \<lparr> totalQuestions = 0, correctAnswers = 0, wrongAnswers = 0, timeouts = 0 \<rparr> \<rparr>"

definition reset :: "GameState \<Rightarrow> GameState" where
  "reset s = new_GameState"

text \<open>
  \<^verbatim>\<open>updateRopePosition(isCorrect)\<close>; the value it returns is the
  \<^const>\<open>ropePosition\<close> of the state it leaves.
\<close>

definition updateRopePosition :: "bool \<Rightarrow> GameState \<Rightarrow> GameState" where
  "updateRopePosition isCorrect s =
     (let direction = (if currentPlayer s = 1 then - 1 else 1);
          strength = (if isCorrect then CORRECT_PULL_STRENGTH else WRONG_PULL_STRENGTH);
          moved = (if isCorrect then ropePosition s + direction * strength
                   else ropePosition s - direction * strength)
      in s\<lparr> ropePosition := max (- 10) (min 10 moved) \<rparr>)"

definition switchPlayer :: "GameState \<Rightarrow> GameState" where
  "switchPlayer s = s\<lparr> currentPlayer := (if currentPlayer s = 1 then 2 else 1) \<rparr>"

definition incrementScore :: "int \<Rightarrow> GameState \<Rightarrow> GameState" where
  "incrementScore player s =
     (if player = 1 then s\<lparr> scores := (scores s)\<lparr> player1 := player1 (scores s) + 1 \<rparr> \<rparr>
      else if player = 2 then s\<lparr> scores := (scores s)\<lparr> player2 := player2 (scores s) + 1 \<rparr> \<rparr>
      else s)"

text \<open>
  \<^verbatim>\<open>updateStats(isCorrect, isTimeout = false)\<close>: a caller that leaves the second
  argument out passes \<^term>\<open>False\<close>.
\<close>

definition updateStats :: "bool \<Rightarrow> bool \<Rightarrow> GameState \<Rightarrow> GameState" where
  "updateStats isCorrect isTimeout s =
     (let st = (stats s)\<lparr> totalQuestions := totalQuestions (stats s) + 1 \<rparr>
      in s\<lparr> stats :=
           (if isTimeout then st\<lparr> timeouts := timeouts st + 1 \<rparr>
            else if isCorrect then st\<lparr> correctAnswers := correctAnswers st + 1 \<rparr>
            else st\<lparr> wrongAnswers := wrongAnswers st + 1 \<rparr>) \<rparr>)"

text \<open>\<^verbatim>\<open>checkWinCondition()\<close> returns a player's name or \<^verbatim>\<open>null\<close>.\<close>

definition checkWinCondition :: "GameState \<Rightarrow> string option" where
  "checkWinCondition s =
     (if ropePosition s \<le> - WIN_THRESHOLD then Some ''player1''
      else if ropePosition s \<ge> WIN_THRESHOLD then Some ''player2''
      else None)"

definition start :: "GameState \<Rightarrow> GameState" where
  "start s = s\<lparr> gameStatus := Playing \<rparr>"

definition pause :: "GameState \<Rightarrow> GameState" where
  "pause s = s\<lparr> gameStatus := Paused \<rparr>"

definition resume :: "GameState \<Rightarrow> GameState" where
  "resume s = s\<lparr> gameStatus := Playing \<rparr>"

definition end_game :: "GameState \<Rightarrow> GameState" where
  "end_game s = s\<lparr> gameStatus := Ended \<rparr>"

definition setCurrentQuestion :: "Question \<Rightarrow> GameState \<Rightarrow> GameState" where
  "setCurrentQuestion question s = s\<lparr> currentQuestion := question \<rparr>"

text \<open>
  The argument of \<^verbatim>\<open>updateSettings\<close> is an object with some of the settings' keys;
  the spread \<^verbatim>\<open>{ ...this.settings, ...newSettings }\<close> overwrites exactly the keys it has.
\<close>

record SettingsUpdate =
  new_difficulty :: "string option"
  new_operation :: "string option"
  new_timerEnabled :: "bool option"
  new_timerValue :: "int option"
  new_soundEnabled :: "bool option"
  new_questionLimitEnabled :: "bool option"
  new_questionLimit :: "int option"
  new_teacherMode :: "bool option"

definition no_update :: SettingsUpdate where
  "no_update =
     \<lparr> new_difficulty = None, new_operation = None, new_timerEnabled = None,
       new_timerValue = None, new_soundEnabled = None, new_questionLimitEnabled = None,
       new_questionLimit = None, new_teacherMode = None \<rparr>"

definition merge_settings :: "Settings \<Rightarrow> SettingsUpdate \<Rightarrow> Settings" where
  "merge_settings old upd =
     \<lparr> difficulty = (case new_difficulty upd of Some v \<Rightarrow> v | None \<Rightarrow> difficulty old),
       operation = (case new_operation upd of Some v \<Rightarrow> v | None \<Rightarrow> operation old),
       timerEnabled = (case new_timerEnabled upd of Some v \<Rightarrow> v | None \<Rightarrow> timerEnabled old),
       timerValue = (case new_timerValue upd of Some v \<Rightarrow> v | None \<Rightarrow> timerValue old),
       soundEnabled = (case new_soundEnabled upd of Some v \<Rightarrow> v | None \<Rightarrow> soundEnabled old),
       questionLimitEnabled =
         (case new_questionLimitEnabled upd of Some v \<Rightarrow> v | None \<Rightarrow> questionLimitEnabled old),
       questionLimit = (case new_questionLimit upd of Some v \<Rightarrow> v | None \<Rightarrow> questionLimit old),
       teacherMode = (case new_teacherMode upd of Some v \<Rightarrow> Some v | None \<Rightarrow> teacherMode old) \<rparr>"

definition updateSettings :: "SettingsUpdate \<Rightarrow> GameState \<Rightarrow> GameState" where
  "updateSettings newSettings s = s\<lparr> settings := merge_settings (settings s) newSettings \<rparr>"

section \<open>ScoreManager\<close>

text \<open>
  The class \<^verbatim>\<open>ScoreManager\<close> has the one field \<^verbatim>\<open>scores\<close>, so an instance is
  a \<^typ>\<open>Scores\<close> record. \<^verbatim>\<open>updateScore(player, points = 1)\<close> is called with one
  argument only; the default is passed explicitly.
\<close>

definition new_ScoreManager :: Scores where
  "new_ScoreManager = \<lparr> player1 = 0, player2 = 0 \<rparr>"

definition updateScore :: "int \<Rightarrow> int \<Rightarrow> Scores \<Rightarrow> Scores" where
  "updateScore player points sc =
     (if player = 1 then sc\<lparr> player1 := player1 sc + points \<rparr>
      else if player = 2 then sc\<lparr> player2 := player2 sc + points \<rparr>
      else sc)"

definition determineWinner :: "Scores \<Rightarrow> string" where
  "determineWinner sc =
     (if player1 sc > player2 sc then ''player1''
      else if player2 sc > player1 sc then ''player2''
      else ''tie'')"

definition ScoreManager_reset :: "Scores \<Rightarrow> Scores" where
  "ScoreManager_reset sc = sc\<lparr> player1 := 0, player2 := 0 \<rparr>"

section \<open>QuestionGenerator\<close>

text \<open>
  \<^verbatim>\<open>validateAnswer(userAnswer, correctAnswer)\<close>. The literal \<^verbatim>\<open>0.01\<close> is the double
  nearest to one hundredth.
\<close>

definition validateAnswer :: "jsvalue \<Rightarrow> double \<Rightarrow> bool" where
  "validateAnswer userAnswer correctAnswer =
     (if userAnswer = JString '''' \<or> userAnswer = JNull \<or> userAnswer = JUndefined then False
      else (let numericAnswer = Number userAnswer
            in if isNaN numericAnswer then False
               else double_less (double_abs (double_sub numericAnswer correctAnswer))
                      (round_to_double (1 / 100))))"

text \<open>
  Every \<^verbatim>\<open>Math.random()\<close> a generator evaluates is an argument of its model, in the
  order of evaluation: a double \<open>r\<close> with \<open>0 \<le> r < 1\<close>, given as the real it denotes.
  \<^verbatim>\<open>Math.floor(Math.random() * n)\<close> is the floor of the double product, that is of the
  exact product rounded to a double. For a draw in that range and a factor up to
  \<open>2 ^ 52\<close> the product is finite and below \<open>n\<close> (shown below), so the other case of the
  definition is never reached. What the generators then compute (sums, differences and
  products of integers far below \<open>2 ^ 53\<close>) is exact in doubles. Private methods lose their
  leading underscore.
\<close>

definition Math_floor_product :: "real \<Rightarrow> int \<Rightarrow> int" where
  "Math_floor_product r n =
     (case round_to_double (r * of_int n) of Finite y \<Rightarrow> \<lfloor>y\<rfloor> | _ \<Rightarrow> 0)"

text \<open>
  A number inside a template literal is printed in decimal (the operands are integers).
\<close>

fun digits_of :: "nat \<Rightarrow> string" where
  "digits_of n =
     (if n < 10 then [''0123456789'' ! n]
      else digits_of (n div 10) @ [''0123456789'' ! (n mod 10)])"

declare digits_of.simps [simp del]

definition String_of :: "int \<Rightarrow> string" where
  "String_of i = (if i < 0 then CHR ''-'' # digits_of (nat (- i)) else digits_of (nat i))"

text \<open>
  \<^verbatim>\<open>difficultyRanges[difficulty]\<close> as \<open>(min, max)\<close>; a key the table does not have gives
  \<^verbatim>\<open>undefined\<close>, here \<^const>\<open>None\<close>. (Names that every JavaScript object inherits,
  \<^verbatim>\<open>constructor\<close> and the like, are not difficulty levels and are not modelled.)
\<close>

definition difficultyRanges :: "string \<Rightarrow> (int \<times> int) option" where
  "difficultyRanges d =
     (if d = ''easy'' then Some (1, 10)
      else if d = ''medium'' then Some (1, 50)
      else if d = ''hard'' then Some (1, 100)
      else None)"

definition getRandomOperation :: "real \<Rightarrow> string option" where
  "getRandomOperation r =
     (let operations = [''addition'', ''subtraction'', ''multiplication'', ''division''];
          i = Math_floor_product r (int (length operations))
      in if 0 \<le> i \<and> i < int (length operations) then Some (operations ! nat i) else None)"

definition getRandomNumber :: "string \<Rightarrow> real \<Rightarrow> int" where
  "getRandomNumber d r =
     (let range = (case difficultyRanges d of
                     Some rg \<Rightarrow> rg
                   | None \<Rightarrow> the (difficultyRanges ''medium''))
      in Math_floor_product r (snd range - fst range + 1) + fst range)"

definition generateAddition :: "string \<Rightarrow> real \<Rightarrow> real \<Rightarrow> Question" where
  "generateAddition d r1 r2 =
     (let a = getRandomNumber d r1;
          b = getRandomNumber d r2
      in \<lparr> text_of = String_of a @ '' + '' @ String_of b,
           answer = Some (a + b),
           operation_of = ''addition'' \<rparr>)"

text \<open>
  The operands of a subtraction after the swap, \<open>(a, b)\<close>: the values the returned text
  shows and the answer is computed from.
\<close>

definition subtraction_operands :: "string \<Rightarrow> real \<Rightarrow> real \<Rightarrow> int \<times> int" where
  "subtraction_operands d r1 r2 =
     (let a = getRandomNumber d r1;
          b = getRandomNumber d r2
      in if a < b then (b, a) else (a, b))"

definition generateSubtraction :: "string \<Rightarrow> real \<Rightarrow> real \<Rightarrow> Question" where
  "generateSubtraction d r1 r2 =
     (let (a, b) = subtraction_operands d r1 r2
      in \<lparr> text_of = String_of a @ '' - '' @ String_of b,
           answer = Some (a - b),
           operation_of = ''subtraction'' \<rparr>)"

text \<open>The multiplication sign is the one character U+00D7, the division sign U+00F7.\<close>

definition generateMultiplication :: "string \<Rightarrow> real \<Rightarrow> real \<Rightarrow> Question" where
  "generateMultiplication d r1 r2 =
     (let (a, b) =
            (if d = ''easy'' then (Math_floor_product r1 10 + 1, Math_floor_product r2 10 + 1)
             else if d = ''medium'' then (Math_floor_product r1 12 + 1, Math_floor_product r2 10 + 1)
             else (Math_floor_product r1 20 + 1, Math_floor_product r2 20 + 1))
      in \<lparr> text_of = String_of a @ [CHR '' '', CHR 0xD7, CHR '' ''] @ String_of b,
           answer = Some (a * b),
           operation_of = ''multiplication'' \<rparr>)"

text \<open>The divisor and the quotient a division draws, \<open>(divisor, quotient)\<close>.\<close>

definition division_draw :: "string \<Rightarrow> real \<Rightarrow> real \<Rightarrow> int \<times> int" where
  "division_draw d r1 r2 =
     (if d = ''easy'' then (Math_floor_product r1 9 + 2, Math_floor_product r2 10 + 1)
      else if d = ''medium'' then (Math_floor_product r1 9 + 2, Math_floor_product r2 20 + 1)
      else (Math_floor_product r1 12 + 2, Math_floor_product r2 30 + 1))"

definition generateDivision :: "string \<Rightarrow> real \<Rightarrow> real \<Rightarrow> Question" where
  "generateDivision d r1 r2 =
     (let (divisor, quotient) = division_draw d r1 r2;
          dividend = divisor * quotient
      in \<lparr> text_of = String_of dividend @ [CHR '' '', CHR 0xF7, CHR '' ''] @ String_of divisor,
           answer = Some quotient,
           operation_of = ''division'' \<rparr>)"

text \<open>
  \<^verbatim>\<open>generateQuestion(operation, difficulty)\<close>: \<open>rop\<close> is the draw of the mixed mode
  (not evaluated otherwise), \<open>r1\<close> and \<open>r2\<close> the two draws of the chosen generator.
  The caller always passes the difficulty, so the default \<^verbatim>\<open>'medium'\<close> of the parameter
  never applies.
\<close>

definition generateQuestion :: "string \<Rightarrow> string \<Rightarrow> real \<Rightarrow> real \<Rightarrow> real \<Rightarrow> Question" where
  "generateQuestion op d rop r1 r2 =
     (let selectedOp = (if op = ''mixed'' then getRandomOperation rop else Some op)
      in if selectedOp = Some ''addition'' then generateAddition d r1 r2
         else if selectedOp = Some ''subtraction'' then generateSubtraction d r1 r2
         else if selectedOp = Some ''multiplication'' then generateMultiplication d r1 r2
         else if selectedOp = Some ''division'' then generateDivision d r1 r2
         else generateAddition d r1 r2)"

section \<open>The game controller (class MathTugOfWar)\<close>

text \<open>
  The controller owns the game state, the score manager, the sound manager's switch and
  the countdown. Of the page it drives, the record keeps what the controller's decisions
  can be read from: whether a countdown interval is registered, the \<^verbatim>\<open>disabled\<close> flag
  that \<^verbatim>\<open>_setSettingsEnabled\<close> writes to the four controls it lists (difficulty,
  operation, timer toggle, timer value), whether the answer input is enabled, what the
  win overlay was last shown with, and how many \<^verbatim>\<open>setTimeout\<close> callbacks for the next
  question are pending. Sounds, feedback, texts and the rope animation are written and
  never read back; they are left out.
\<close>

record Game =
  gameState :: GameState
  scoreManager :: Scores
  soundManager_enabled :: bool
  timerInterval :: bool
  timeRemaining :: int
  settingsControlsDisabled :: bool
  inputEnabled :: bool
  winOverlay :: "(string \<times> Scores) option"
  pendingNextQuestion :: nat

text \<open>The controller after its constructor and \<^verbatim>\<open>init()\<close>, on a page with all controls enabled.\<close>

definition new_Game :: Game where
  "new_Game =
     \<lparr> gameState = new_GameState,
       scoreManager = new_ScoreManager,
       soundManager_enabled = True,
       timerInterval = False,
       timeRemaining = 0,
       settingsControlsDisabled = False,
       inputEnabled = False,
       winOverlay = None,
       pendingNextQuestion = 0 \<rparr>"

definition setSettingsEnabled :: "bool \<Rightarrow> Game \<Rightarrow> Game" where
  "setSettingsEnabled enabled g = g\<lparr> settingsControlsDisabled := \<not> enabled \<rparr>"

definition stopTimer :: "Game \<Rightarrow> Game" where
  "stopTimer g = (if timerInterval g then g\<lparr> timerInterval := False \<rparr> else g)"

definition startTimer :: "Game \<Rightarrow> Game" where
  "startTimer g =
     (let g1 = stopTimer g
      in g1\<lparr> timeRemaining := timerValue (settings (gameState g1)), timerInterval := True \<rparr>)"

definition nextQuestion :: "real \<Rightarrow> real \<Rightarrow> real \<Rightarrow> Game \<Rightarrow> Game" where
  "nextQuestion rop r1 r2 g =
     (let question = generateQuestion (operation (settings (gameState g)))
                       (difficulty (settings (gameState g))) rop r1 r2;
          g1 = g\<lparr> gameState := setCurrentQuestion question (gameState g) \<rparr>
      in if timerEnabled (settings (gameState g1)) then startTimer g1 else g1)"

definition startGame :: "real \<Rightarrow> real \<Rightarrow> real \<Rightarrow> Game \<Rightarrow> Game" where
  "startGame rop r1 r2 g =
     (let g1 = setSettingsEnabled False g;
          g2 = g1\<lparr> gameState := start (gameState g1) \<rparr>;
          g3 = nextQuestion rop r1 r2 g2
      in g3\<lparr> inputEnabled := True \<rparr>)"

definition handleWin :: "string \<Rightarrow> Game \<Rightarrow> Game" where
  "handleWin winner g =
     (let g1 = g\<lparr> gameState := end_game (gameState g) \<rparr>;
          g2 = stopTimer g1;
          g3 = g2\<lparr> inputEnabled := False \<rparr>
      in g3\<lparr> winOverlay := Some (winner, scoreManager g3) \<rparr>)"

text \<open>
  \<^verbatim>\<open>processAnswer(isCorrect, userAnswer)\<close>; \<^verbatim>\<open>userAnswer\<close> only goes to the feedback
  display. The \<^verbatim>\<open>setTimeout\<close> at the end registers a callback, modelled by
  \<open>nextQuestionCallback\<close> below.
\<close>

definition processAnswer :: "bool \<Rightarrow> string \<Rightarrow> Game \<Rightarrow> Game" where
  "processAnswer isCorrect userAnswer g =
     (let g1 = g\<lparr> gameState := updateStats isCorrect False (gameState g) \<rparr>;
          g2 = (if isCorrect
                then g1\<lparr> scoreManager :=
                          updateScore (currentPlayer (gameState g1)) 1 (scoreManager g1) \<rparr>
                else g1);
          g3 = g2\<lparr> gameState := updateRopePosition isCorrect (gameState g2) \<rparr>
      in case checkWinCondition (gameState g3) of
           Some winner \<Rightarrow> handleWin winner g3
         | None \<Rightarrow>
             (let limitWinner =
                    (if questionLimitEnabled (settings (gameState g3))
                     then if totalQuestions (stats (gameState g3))
                               \<ge> questionLimit (settings (gameState g3))
                          then (let scoreWinner = determineWinner (scoreManager g3)
                                in if scoreWinner = ''tie'' then None else Some scoreWinner)
                          else None
                     else None)
              in case limitWinner of
                   Some scoreWinner \<Rightarrow> handleWin scoreWinner g3
                 | None \<Rightarrow>
                     g3\<lparr> gameState := switchPlayer (gameState g3),
                         pendingNextQuestion := pendingNextQuestion g3 + 1 \<rparr>))"

text \<open>The callback that \<^verbatim>\<open>processAnswer\<close> schedules, when it runs two seconds later.\<close>

definition nextQuestionCallback :: "real \<Rightarrow> real \<Rightarrow> real \<Rightarrow> Game \<Rightarrow> Game" where
  "nextQuestionCallback rop r1 r2 g =
     (if pendingNextQuestion g = 0 then g
      else (let g1 = g\<lparr> pendingNextQuestion := pendingNextQuestion g - 1 \<rparr>
            in if gameStatus (gameState g1) = Playing then nextQuestion rop r1 r2 g1 else g1))"

text \<open>
  \<^verbatim>\<open>handleSubmit()\<close>; its argument is the text it reads from the answer input. The
  answer of the current question is an integer, which a double holds exactly (generated
  answers are far below \<open>2 ^ 53\<close>), and \<^verbatim>\<open>null\<close> counts as 0 in the subtraction.
\<close>

definition answer_number :: "int option \<Rightarrow> double" where
  "answer_number a = (case a of None \<Rightarrow> Finite 0 | Some n \<Rightarrow> Finite (of_int n))"

definition handleSubmit :: "string \<Rightarrow> Game \<Rightarrow> Game" where
  "handleSubmit userAnswer g =
     (if gameStatus (gameState g) \<noteq> Playing then g
      else (let g1 = stopTimer g;
                isCorrect = validateAnswer (JString userAnswer)
                              (answer_number (answer (currentQuestion (gameState g1))))
            in processAnswer isCorrect userAnswer g1))"

definition handleTimeout :: "Game \<Rightarrow> Game" where
  "handleTimeout g =
     (let g1 = stopTimer g;
          g2 = g1\<lparr> gameState := updateStats False True (gameState g1) \<rparr>
      in processAnswer False ''(timeout)'' g2)"

text \<open>
  One tick of the countdown: the body of the \<^verbatim>\<open>setInterval\<close> callback of
  \<^verbatim>\<open>startTimer\<close>, which runs only while the interval is registered.
\<close>

definition timerTick :: "Game \<Rightarrow> Game" where
  "timerTick g =
     (if \<not> timerInterval g then g
      else (let g1 = g\<lparr> timeRemaining := timeRemaining g - 1 \<rparr>
            in if timeRemaining g1 \<le> 0 then handleTimeout g1 else g1))"

definition togglePause :: "Game \<Rightarrow> Game" where
  "togglePause g =
     (if gameStatus (gameState g) = Playing
      then (stopTimer (g\<lparr> gameState := pause (gameState g) \<rparr>))\<lparr> inputEnabled := False \<rparr>
      else if gameStatus (gameState g) = Paused
      then (let g1 = g\<lparr> gameState := resume (gameState g), inputEnabled := True \<rparr>
            in if timerEnabled (settings (gameState g1)) then startTimer g1 else g1)
      else g)"

definition resetGame :: "Game \<Rightarrow> Game" where
  "resetGame g =
     (let g1 = stopTimer g;
          g2 = g1\<lparr> gameState := reset (gameState g1) \<rparr>;
          g3 = g2\<lparr> scoreManager := ScoreManager_reset (scoreManager g2) \<rparr>;
          g4 = g3\<lparr> inputEnabled := False, winOverlay := None \<rparr>
      in setSettingsEnabled True g4)"

definition toggleSound :: "Game \<Rightarrow> Game" where
  "toggleSound g =
     (let enabled = \<not> soundManager_enabled g;
          g1 = g\<lparr> soundManager_enabled := enabled \<rparr>
      in g1\<lparr> gameState :=
              updateSettings (no_update\<lparr> new_soundEnabled := Some enabled \<rparr>) (gameState g1) \<rparr>)"

definition toggleTeacherMode :: "Game \<Rightarrow> Game" where
  "toggleTeacherMode g =
     (let teacherMode = (case teacherMode (settings (gameState g)) of
                           Some b \<Rightarrow> b | None \<Rightarrow> False);
          newMode = \<not> teacherMode
      in g\<lparr> gameState :=
             updateSettings (no_update\<lparr> new_teacherMode := Some newMode \<rparr>) (gameState g) \<rparr>)"

text \<open>
  The \<^verbatim>\<open>change\<close> listeners of the settings controls, registered by
  \<^verbatim>\<open>_setupEventListeners\<close>. The argument is what the listener reads from the event:
  the control's value, its \<^verbatim>\<open>checked\<close> flag, or for the two number inputs the result
  of \<^verbatim>\<open>parseInt(e.target.value)\<close>, where \<^const>\<open>None\<close> is \<^verbatim>\<open>NaN\<close> (every comparison
  with it is false).
\<close>

definition difficultySelect_change :: "string \<Rightarrow> Game \<Rightarrow> Game" where
  "difficultySelect_change v g =
     g\<lparr> gameState := updateSettings (no_update\<lparr> new_difficulty := Some v \<rparr>) (gameState g) \<rparr>"

definition operationSelect_change :: "string \<Rightarrow> Game \<Rightarrow> Game" where
  "operationSelect_change v g =
     g\<lparr> gameState := updateSettings (no_update\<lparr> new_operation := Some v \<rparr>) (gameState g) \<rparr>"

definition timerToggle_change :: "bool \<Rightarrow> Game \<Rightarrow> Game" where
  "timerToggle_change checked g =
     g\<lparr> gameState :=
          updateSettings (no_update\<lparr> new_timerEnabled := Some checked \<rparr>) (gameState g) \<rparr>"

definition timerValueInput_change :: "int option \<Rightarrow> Game \<Rightarrow> Game" where
  "timerValueInput_change parsed g =
     (case parsed of
        None \<Rightarrow> g
      | Some v \<Rightarrow>
          if v \<ge> 5 \<and> v \<le> 60
          then g\<lparr> gameState :=
                   updateSettings (no_update\<lparr> new_timerValue := Some v \<rparr>) (gameState g) \<rparr>
          else g)"

definition questionLimitToggle_change :: "bool \<Rightarrow> Game \<Rightarrow> Game" where
  "questionLimitToggle_change checked g =
     g\<lparr> gameState :=
          updateSettings (no_update\<lparr> new_questionLimitEnabled := Some checked \<rparr>)
            (gameState g) \<rparr>"

definition questionLimitInput_change :: "int option \<Rightarrow> Game \<Rightarrow> Game" where
  "questionLimitInput_change parsed g =
     (case parsed of
        None \<Rightarrow> g
      | Some v \<Rightarrow>
          if v \<ge> 5 \<and> v \<le> 100
          then g\<lparr> gameState :=
                   updateSettings (no_update\<lparr> new_questionLimit := Some v \<rparr>) (gameState g) \<rparr>
          else g)"

section \<open>Auxiliary definitions\<close>

text \<open>The invariant of the statistics.\<close>

definition stats_balanced :: "Stats \<Rightarrow> bool" where
  "stats_balanced st \<longleftrightarrow>
     totalQuestions st = correctAnswers st + wrongAnswers st + timeouts st"

text \<open>
  \<^verbatim>\<open>processAnswer\<close> in two named pieces, for the proofs: the state after the
  statistics, the score and the rope have been updated, and the winner that the question
  limit gives, if any.
\<close>

definition answerRecorded :: "bool \<Rightarrow> Game \<Rightarrow> Game" where
  "answerRecorded isCorrect g =
     (let g1 = g\<lparr> gameState := updateStats isCorrect False (gameState g) \<rparr>;
          g2 = (if isCorrect
                then g1\<lparr> scoreManager :=
                          updateScore (currentPlayer (gameState g1)) 1 (scoreManager g1) \<rparr>
                else g1)
      in g2\<lparr> gameState := updateRopePosition isCorrect (gameState g2) \<rparr>)"

definition limitWinner :: "Game \<Rightarrow> string option" where
  "limitWinner g3 =
     (if questionLimitEnabled (settings (gameState g3))
      then if totalQuestions (stats (gameState g3)) \<ge> questionLimit (settings (gameState g3))
           then (let scoreWinner = determineWinner (scoreManager g3)
                 in if scoreWinner = ''tie'' then None else Some scoreWinner)
           else None
      else None)"

text \<open>
  Concrete games: a started game whose countdown is about to expire; a game started with
  a limit of five questions; and that game after four answered questions with the scores
  level at 2 - 2.
\<close>

definition ticking_game :: Game where
  "ticking_game = (startGame 0 0 0 new_Game)\<lparr> timeRemaining := 1 \<rparr>"

definition limit_game :: Game where
  "limit_game =
     startGame 0 0 0
       (questionLimitInput_change (Some 5) (questionLimitToggle_change True new_Game))"

definition tied_at_limit :: Game where
  "tied_at_limit =
     limit_game\<lparr> gameState := (gameState limit_game)\<lparr> stats :=
         \<lparr> totalQuestions = 4, correctAnswers = 4, wrongAnswers = 0, timeouts = 0 \<rparr> \<rparr>,
       scoreManager := \<lparr> player1 = 2, player2 = 2 \<rparr> \<rparr>"

text \<open>
  Draws: the doubles nearest to 0.7, 0.3 and 11/12, and the largest double below 1.
\<close>

definition double_0_7 :: real where
  "double_0_7 = 3152519739159347 / 2 ^ 52"

definition double_0_3 :: real where
  "double_0_3 = 5404319552844595 / 2 ^ 54"

definition double_11_12 :: real where
  "double_11_12 = 8256599316845909 / 2 ^ 53"

definition largest_draw :: real where
  "largest_draw = 9007199254740991 / 2 ^ 53"

section \<open>Properties of the number model\<close>

lemma bit_length_nonpos: "n \<le> 0 \<Longrightarrow> bit_length n = 0"
  by (simp add: bit_length.simps)

lemma bit_length_pos: "0 < n \<Longrightarrow> bit_length n = 1 + bit_length (n div 2)"
  by (simp add: bit_length.simps [of n])

lemma bit_length_nonneg: "0 \<le> bit_length m"
proof (induction m rule: bit_length.induct)
  case (1 n)
  show ?case
  proof (cases "n \<le> 0")
    case True
    then show ?thesis by (simp add: bit_length_nonpos)
  next
    case False
    then have pos: "0 < n" by simp
    from 1 False have "0 \<le> bit_length (n div 2)" by simp
    then show ?thesis using bit_length_pos [OF pos] by simp
  qed
qed

lemma bit_length_positive: "0 < n \<Longrightarrow> 0 < bit_length n"
  using bit_length_pos [of n] bit_length_nonneg [of "n div 2"] by simp

lemma bit_length_bounds:
  "0 < n \<Longrightarrow> 2 ^ nat (bit_length n - 1) \<le> n \<and> n < 2 ^ nat (bit_length n)"
proof (induction n rule: bit_length.induct)
  case (1 n)
  show ?case
  proof (cases "n = 1")
    case True
    then show ?thesis by (simp add: bit_length_pos bit_length_nonpos)
  next
    case False
    with "1.prems" have half: "0 < n div 2" by simp
    from "1.prems" have eq: "bit_length n = 1 + bit_length (n div 2)" by (rule bit_length_pos)
    have b: "0 < bit_length (n div 2)" using half by (rule bit_length_positive)
    from "1.IH" "1.prems" half
    have IH: "2 ^ nat (bit_length (n div 2) - 1) \<le> n div 2 \<and> n div 2 < 2 ^ nat (bit_length (n div 2))"
      by simp
    have "nat (bit_length (n div 2)) = Suc (nat (bit_length (n div 2) - 1))"
      using b by simp
    then have p: "(2::int) ^ nat (bit_length (n div 2)) = 2 * 2 ^ nat (bit_length (n div 2) - 1)"
      by simp
    have lo: "2 ^ nat (bit_length (n div 2)) \<le> n"
      using IH p by linarith
    have "nat (1 + bit_length (n div 2)) = Suc (nat (bit_length (n div 2)))"
      using b by simp
    then have q: "(2::int) ^ nat (1 + bit_length (n div 2)) = 2 * 2 ^ nat (bit_length (n div 2))"
      by simp
    have hi: "n < 2 ^ nat (1 + bit_length (n div 2))"
      using IH q by linarith
    from lo hi show ?thesis by (simp add: eq)
  qed
qed

text \<open>\<^const>\<open>floor_log2\<close> is the binary exponent of a positive real.\<close>

lemma floor_log2_bounds:
  assumes "0 < x"
  shows "pow2 (floor_log2 x) \<le> x \<and> x < pow2 (floor_log2 x + 1)"
proof (cases "1 \<le> x")
  case True
  define n where "n = \<lfloor>x\<rfloor>"
  have n: "1 \<le> n" using True by (simp add: n_def le_floor_iff)
  then have b: "0 < bit_length n" by (intro bit_length_positive) simp
  have fl: "floor_log2 x = bit_length n - 1"
    using True by (simp add: floor_log2_def n_def)
  from n bit_length_bounds [of n]
  have bounds: "2 ^ nat (bit_length n - 1) \<le> n" "n + 1 \<le> 2 ^ nat (bit_length n)"
    by simp_all
  have A: "real_of_int (2 ^ nat (bit_length n - 1)) \<le> real_of_int n"
    using bounds(1) by (simp only: of_int_le_iff)
  have A': "real_of_int (2 ^ nat (bit_length n - 1)) = 2 ^ nat (bit_length n - 1)"
    by simp
  have "real_of_int n \<le> x" by (simp add: n_def)
  with A A' have lo: "2 ^ nat (bit_length n - 1) \<le> x" by linarith
  have B: "real_of_int (n + 1) \<le> real_of_int (2 ^ nat (bit_length n))"
    using bounds(2) by (simp only: of_int_le_iff)
  have B': "real_of_int (2 ^ nat (bit_length n)) = 2 ^ nat (bit_length n)"
    by simp
  have "x < real_of_int (n + 1)" by (simp add: n_def)
  with B B' have hi: "x < 2 ^ nat (bit_length n)" by linarith
  from lo hi b show ?thesis
    by (simp add: fl pow2_def)
next
  case False
  define m where "m = \<lceil>1 / x\<rceil>"
  define k where "k = bit_length (m - 1)"
  from False assms have inv: "1 < 1 / x" by simp
  then have m: "2 \<le> m" by (simp add: m_def le_ceiling_iff)
  then have k: "0 < k" unfolding k_def by (intro bit_length_positive) simp
  have fl: "floor_log2 x = - k"
    using False by (simp add: floor_log2_def m_def k_def)
  from m bit_length_bounds [of "m - 1"]
  have bounds: "2 ^ nat (k - 1) \<le> m - 1" "m \<le> 2 ^ nat k"
    by (simp_all add: k_def)
  have A: "real_of_int m \<le> real_of_int (2 ^ nat k)"
    using bounds(2) by (simp only: of_int_le_iff)
  have A': "real_of_int (2 ^ nat k) = 2 ^ nat k" by simp
  have "1 / x \<le> real_of_int m" by (simp add: m_def)
  with A A' have "1 / x \<le> 2 ^ nat k" by linarith
  then have "1 \<le> 2 ^ nat k * x"
    using assms by (simp add: field_simps)
  then have lo: "1 / 2 ^ nat k \<le> x"
    by (simp add: field_simps)
  have B: "real_of_int (2 ^ nat (k - 1)) \<le> real_of_int (m - 1)"
    using bounds(1) by (simp only: of_int_le_iff)
  have B': "real_of_int (2 ^ nat (k - 1)) = 2 ^ nat (k - 1)" by simp
  have "real_of_int (m - 1) < 1 / x"
    unfolding m_def using ceiling_correct [of "1 / x"] by simp
  with B B' have "2 ^ nat (k - 1) < 1 / x" by linarith
  then have "2 ^ nat (k - 1) * x < 1"
    using assms by (simp add: field_simps)
  then have hi: "x < 1 / 2 ^ nat (k - 1)"
    by (simp add: field_simps)
  show ?thesis
  proof (cases "k = 1")
    case True
    with lo False show ?thesis by (simp add: fl pow2_def)
  next
    case False
    with k have "1 < k" by simp
    with lo hi show ?thesis by (simp add: fl pow2_def)
  qed
qed

lemma pow2_power: "0 \<le> e \<Longrightarrow> pow2 e = 2 ^ nat e"
  by (simp add: pow2_def)

lemma pow2_pos: "0 < pow2 e"
  by (simp add: pow2_def)

lemma pow2_add: "pow2 (a + b) = pow2 a * pow2 b"
proof -
  have "pow2 e = 2 powr (real_of_int e)" for e
    by (simp add: pow2_def powr_realpow [symmetric] powr_minus field_simps)
  then show ?thesis
    by (simp add: powr_add)
qed

lemma pow2_mono: "a \<le> b \<Longrightarrow> pow2 a \<le> pow2 b"
proof -
  have "pow2 e = 2 powr (real_of_int e)" for e
    by (simp add: pow2_def powr_realpow [symmetric] powr_minus field_simps)
  then show "a \<le> b \<Longrightarrow> pow2 a \<le> pow2 b"
    by simp
qed

lemma round_half_even_of_int: "round_half_even (of_int k) = k"
  by (simp add: round_half_even_def)

text \<open>
  An integer below \<open>2 ^ 53\<close> in absolute value is a double: rounding leaves it as it
  is. The answers of generated questions are such integers.
\<close>

lemma round_to_double_of_int:
  assumes "\<bar>n\<bar> < 2 ^ 53"
  shows "round_to_double (of_int n) = Finite (of_int n)"
proof (cases "n = 0")
  case True
  then show ?thesis by (simp add: round_to_double_def)
next
  case False
  define x where "x = \<bar>real_of_int n\<bar>"
  define e where "e = floor_log2 x"
  have x1: "1 \<le> x" using False by (simp add: x_def)
  then have xpos: "0 < x" by simp
  have b: "pow2 e \<le> x" "x < pow2 (e + 1)"
    using floor_log2_bounds [OF xpos] by (simp_all add: e_def)
  have x53: "x < pow2 53"
  proof -
    have "real_of_int \<bar>n\<bar> < real_of_int (2 ^ 53)"
      using assms by (simp only: of_int_less_iff)
    then show ?thesis by (simp add: x_def pow2_def)
  qed
  have e_lo: "0 \<le> e"
  proof (rule ccontr)
    assume "\<not> 0 \<le> e"
    then have "e + 1 \<le> 0" by simp
    then have "pow2 (e + 1) \<le> pow2 0" by (rule pow2_mono)
    with b(2) x1 show False by (simp add: pow2_def)
  qed
  have e_hi: "e \<le> 52"
  proof (rule ccontr)
    assume "\<not> e \<le> 52"
    then have "53 \<le> e" by simp
    then have "pow2 53 \<le> pow2 e" by (rule pow2_mono)
    with b(1) x53 show False by simp
  qed
  define u where "u = pow2 (e - 52)"
  have u: "u * 2 ^ nat (52 - e) = 1"
  proof -
    have "pow2 (e - 52) * pow2 (52 - e) = pow2 0"
      by (simp add: pow2_add [symmetric])
    then show ?thesis
      using e_hi by (simp add: u_def pow2_power)
  qed
  have upos: "0 < u" by (simp add: u_def pow2_pos)
  have q: "x / u = real_of_int (\<bar>n\<bar> * 2 ^ nat (52 - e))"
  proof -
    have "x / u = x * 2 ^ nat (52 - e)"
      using u upos by (simp add: field_simps)
    then show ?thesis by (simp add: x_def)
  qed
  have y: "real_of_int (round_half_even (x / u)) * u = x"
  proof -
    have "real_of_int (round_half_even (x / u)) = x / u"
      unfolding q round_half_even_of_int ..
    then show ?thesis using upos by simp
  qed
  have m: "max (floor_log2 x) (- 1022) - 52 = e - 52"
    using e_lo by (simp add: e_def)
  have fin: "\<not> pow2 1024 \<le> x"
  proof -
    have "pow2 53 \<le> pow2 1024" by (rule pow2_mono) simp
    with x53 show ?thesis by simp
  qed
  have "sgn (real_of_int n) * x = real_of_int n"
    by (simp add: x_def sgn_real_def)
  then show ?thesis
    using False y fin
    by (simp add: round_to_double_def Let_def m u_def [symmetric] x_def [symmetric])
qed

lemma pow2_strict_mono: "a < b \<Longrightarrow> pow2 a < pow2 b"
proof -
  have "pow2 e = 2 powr (real_of_int e)" for e
    by (simp add: pow2_def powr_realpow [symmetric] powr_minus field_simps)
  then show "a < b \<Longrightarrow> pow2 a < pow2 b"
    by simp
qed

lemma pow2_less_imp: "pow2 a < pow2 b \<Longrightarrow> a < b"
  using pow2_mono [of b a] by (cases "a < b") simp_all

lemma round_half_even_nonneg: "0 \<le> q \<Longrightarrow> 0 \<le> round_half_even q"
proof -
  assume "0 \<le> q"
  then have "0 \<le> \<lfloor>q\<rfloor>" by simp
  then show ?thesis by (simp add: round_half_even_def Let_def)
qed

lemma round_half_even_le:
  assumes "q \<le> real_of_int B"
  shows "round_half_even q \<le> B"
proof -
  have f: "real_of_int \<lfloor>q\<rfloor> \<le> q" by simp
  have fB: "\<lfloor>q\<rfloor> \<le> B" using assms by (simp add: floor_le_iff)
  show ?thesis
  proof (cases "q - real_of_int \<lfloor>q\<rfloor> < 1 / 2")
    case True
    with fB show ?thesis by (simp add: round_half_even_def Let_def)
  next
    case False
    then have "real_of_int \<lfloor>q\<rfloor> < q" by linarith
    with assms have "real_of_int \<lfloor>q\<rfloor> < real_of_int B" by linarith
    then have "\<lfloor>q\<rfloor> < B" by (simp only: of_int_less_iff)
    then show ?thesis by (simp add: round_half_even_def Let_def)
  qed
qed

lemma round_half_even_below_half:
  assumes "q < real_of_int N - 1 / 2"
  shows "round_half_even q \<le> N - 1"
proof -
  have f: "real_of_int \<lfloor>q\<rfloor> \<le> q" by simp
  with assms have "real_of_int \<lfloor>q\<rfloor> < real_of_int N" by linarith
  then have fN: "\<lfloor>q\<rfloor> \<le> N - 1" by simp
  show ?thesis
  proof (cases "q - real_of_int \<lfloor>q\<rfloor> < 1 / 2")
    case True
    with fN show ?thesis by (simp add: round_half_even_def Let_def)
  next
    case False
    with assms have "real_of_int \<lfloor>q\<rfloor> + 1 < real_of_int N" by linarith
    then have "real_of_int (\<lfloor>q\<rfloor> + 1) < real_of_int N" by simp
    then have "\<lfloor>q\<rfloor> + 1 < N" by (simp only: of_int_less_iff)
    then show ?thesis by (simp add: round_half_even_def Let_def)
  qed
qed


lemma round_to_double_nonzero:
  assumes "x \<noteq> 0"
  shows "round_to_double x =
     (if pow2 1024 \<le> real_of_int (round_half_even
            (\<bar>x\<bar> / pow2 (max (floor_log2 \<bar>x\<bar>) (- 1022) - 52)))
          * pow2 (max (floor_log2 \<bar>x\<bar>) (- 1022) - 52)
      then (if 0 < x then PosInfinity else NegInfinity)
      else Finite (sgn x * (real_of_int (round_half_even
            (\<bar>x\<bar> / pow2 (max (floor_log2 \<bar>x\<bar>) (- 1022) - 52)))
          * pow2 (max (floor_log2 \<bar>x\<bar>) (- 1022) - 52))))"
  using assms by (simp add: round_to_double_def Let_def)

text \<open>The binary exponent is the only one whose binade holds the number.\<close>

lemma floor_log2_unique:
  assumes "pow2 e \<le> x" "x < pow2 (e + 1)"
  shows "floor_log2 x = e"
proof -
  have xpos: "0 < x" using assms(1) pow2_pos [of e] by linarith
  from floor_log2_bounds [OF xpos]
  have b: "pow2 (floor_log2 x) \<le> x" "x < pow2 (floor_log2 x + 1)" by simp_all
  have "pow2 e < pow2 (floor_log2 x + 1)" using assms(1) b(2) by linarith
  then have 1: "e < floor_log2 x + 1" by (rule pow2_less_imp)
  have "pow2 (floor_log2 x) < pow2 (e + 1)" using assms(2) b(1) by linarith
  then have 2: "floor_log2 x < e + 1" by (rule pow2_less_imp)
  from 1 2 show ?thesis by simp
qed


lemma round_to_double_below_integer:
  assumes "0 \<le> x" and "x \<le> real_of_int n - real_of_int n / 2 ^ 53"
    and "1 \<le> n" and "n \<le> 2 ^ 52"
  shows "\<exists>y. round_to_double x = Finite y \<and> 0 \<le> y \<and> y < real_of_int n"
proof (cases "x = 0")
  case True
  with assms(3) show ?thesis by (simp add: round_to_double_def)
next
  case False
  with assms(1) have xpos: "0 < x" by simp
  define E where "E = max (floor_log2 x) (- 1022)"
  define u where "u = pow2 (E - 52)"
  define K where "K = round_half_even (x / u)"
  have upos: "0 < u" by (simp add: u_def pow2_pos)
  have npos: "0 < real_of_int n" using assms(3) by simp
  have xn: "x < real_of_int n"
  proof -
    have "0 < real_of_int n / 2 ^ 53" using npos by simp
    with assms(2) show ?thesis by linarith
  qed
  have En: "pow2 E < real_of_int n"
  proof (cases "- 1022 \<le> floor_log2 x")
    case True
    then have "E = floor_log2 x" by (simp add: E_def)
    with floor_log2_bounds [OF xpos] xn show ?thesis by simp
  next
    case False
    then have "E = - 1022" by (simp add: E_def)
    moreover have "pow2 (- 1022) < pow2 0" by (rule pow2_strict_mono) simp
    moreover have "pow2 0 = 1" by (simp add: pow2_def)
    moreover have "1 \<le> real_of_int n" using assms(3) by simp
    ultimately show ?thesis by simp
  qed
  have n52: "real_of_int n \<le> pow2 52"
  proof -
    have "real_of_int n \<le> real_of_int (2 ^ 52)" using assms(4) by (simp only: of_int_le_iff)
    then show ?thesis by (simp add: pow2_def)
  qed
  have "pow2 E < pow2 52" using En n52 by linarith
  then have E52: "E < 52" by (rule pow2_less_imp)
  define m where "m = nat (52 - E)"
  have pm: "pow2 (52 - E) = 2 ^ m"
    using E52 by (simp add: pow2_power m_def)
  have um: "u * 2 ^ m = 1"
  proof -
    have "pow2 (E - 52) * pow2 (52 - E) = pow2 0"
      by (simp add: pow2_add [symmetric])
    moreover have "pow2 0 = 1" by (simp add: pow2_def)
    ultimately show ?thesis by (simp add: u_def pm)
  qed
  define N where "N = n * 2 ^ m"
  have Nu: "real_of_int N * u = real_of_int n"
  proof -
    have "real_of_int N * u = real_of_int n * (u * 2 ^ m)"
      by (simp add: N_def)
    then show ?thesis by (simp add: um)
  qed
  have half: "u / 2 = pow2 E / 2 ^ 53"
  proof -
    have "pow2 (E - 52) * pow2 52 = pow2 E"
      by (simp add: pow2_add [symmetric])
    moreover have "pow2 52 = 2 ^ 52" by (simp add: pow2_def)
    ultimately have "u * 2 ^ 52 = pow2 E" by (simp add: u_def)
    then show ?thesis by simp
  qed
  have "pow2 E / 2 ^ 53 < real_of_int n / 2 ^ 53"
    using En by (simp add: divide_strict_right_mono)
  with half assms(2) have below: "x < real_of_int n - u / 2" by linarith
  have q: "x / u < real_of_int N - 1 / 2"
  proof -
    have "x / u < (real_of_int n - u / 2) / u"
      using below upos by (simp add: divide_strict_right_mono)
    also have "(real_of_int n - u / 2) / u = real_of_int n / u - 1 / 2"
      using upos by (simp add: field_simps)
    also have "real_of_int n / u = real_of_int N"
      using Nu upos by (simp add: field_simps)
    finally show ?thesis .
  qed
  have K_hi: "K \<le> N - 1"
    unfolding K_def using q by (rule round_half_even_below_half)
  have K_lo: "0 \<le> K"
    unfolding K_def using xpos upos by (intro round_half_even_nonneg) simp
  define y where "y = real_of_int K * u"
  have y_lo: "0 \<le> y" using K_lo upos by (simp add: y_def)
  have "real_of_int K \<le> real_of_int (N - 1)" using K_hi by (simp only: of_int_le_iff)
  then have "y \<le> real_of_int (N - 1) * u"
    unfolding y_def using upos by (simp add: mult_right_mono)
  also have "real_of_int (N - 1) * u = real_of_int n - u"
    using Nu by (simp add: algebra_simps)
  finally have y_hi: "y < real_of_int n" using upos by linarith
  have "pow2 52 \<le> pow2 1024" by (rule pow2_mono) simp
  with y_hi n52 have fin: "\<not> pow2 1024 \<le> y" by linarith
  have "round_to_double x = Finite (sgn x * y)"
    using fin False xpos
    by (simp add: round_to_double_nonzero y_def K_def u_def E_def)
  then have "round_to_double x = Finite y" using xpos by simp
  with y_lo y_hi show ?thesis by blast
qed

lemma double_below_one:
  assumes "is_double r" "0 \<le> r" "r < 1"
  shows "r \<le> 1 - 1 / 2 ^ 53"
proof (cases "r < 1 / 2")
  case True
  then show ?thesis by simp
next
  case False
  then have lo: "pow2 (- 1) \<le> r" by (simp add: pow2_def)
  have hi: "r < pow2 (- 1 + 1)" using assms(3) by (simp add: pow2_def)
  have e: "floor_log2 r = - 1" using lo hi by (rule floor_log2_unique)
  have rpos: "0 < r" using False by simp
  define K where "K = round_half_even (r / pow2 (- 53))"
  have u: "pow2 (- 53) = 1 / 2 ^ 53" by (simp add: pow2_def)
  from assms(1) have "round_to_double r = Finite r" by (simp add: is_double_def)
  then have "Finite (real_of_int K * pow2 (- 53)) = Finite r"
    using rpos by (simp add: round_to_double_nonzero e K_def split: if_splits)
  then have r: "r = real_of_int K / 2 ^ 53" by (simp add: u)
  with assms(3) have "real_of_int K < 2 ^ 53" by (simp add: field_simps)
  then have "real_of_int K < real_of_int (2 ^ 53)" by simp
  then have "K < 2 ^ 53" by (simp only: of_int_less_iff)
  then have "K \<le> 2 ^ 53 - 1" by simp
  then have "real_of_int K \<le> real_of_int (2 ^ 53 - 1)" by (simp only: of_int_le_iff)
  then have "real_of_int K \<le> 2 ^ 53 - 1" by simp
  then have "real_of_int K / 2 ^ 53 \<le> (2 ^ 53 - 1) / 2 ^ 53"
    by (simp add: divide_right_mono)
  then show ?thesis by (simp add: r field_simps)
qed

lemma draw_product:
  assumes "is_double r" "0 \<le> r" "r < 1" and "1 \<le> n" "n \<le> 2 ^ 52"
  shows "\<exists>y. round_to_double (r * real_of_int n) = Finite y \<and> 0 \<le> \<lfloor>y\<rfloor> \<and> \<lfloor>y\<rfloor> \<le> n - 1"
proof -
  have r: "r \<le> 1 - 1 / 2 ^ 53" using assms(1-3) by (rule double_below_one)
  have n: "0 \<le> real_of_int n" using assms(4) by simp
  have "r * real_of_int n \<le> (1 - 1 / 2 ^ 53) * real_of_int n"
    using r n by (rule mult_right_mono)
  then have le: "r * real_of_int n \<le> real_of_int n - real_of_int n / 2 ^ 53"
    by (simp add: algebra_simps)
  have "0 \<le> r * real_of_int n" using assms(2) n by simp
  from round_to_double_below_integer [OF this le assms(4,5)]
  obtain y where y: "round_to_double (r * real_of_int n) = Finite y" "0 \<le> y" "y < real_of_int n"
    by blast
  from y(3) have "\<lfloor>y\<rfloor> < n" by (simp add: floor_less_iff)
  with y(1,2) show ?thesis by simp
qed


text \<open>
  No double lies between one hundredth and the double nearest to it: for the result of a
  rounding, being below the one is being below the other.
\<close>

lemma tolerance_exact:
  assumes "round_to_double z = Finite d"
  shows "\<bar>d\<bar> < 5764607523034235 / 2 ^ 59 \<longleftrightarrow> \<bar>d\<bar> < 1 / 100"
proof (cases "z = 0")
  case True
  with assms show ?thesis by (simp add: round_to_double_def)
next
  case False
  define E where "E = max (floor_log2 \<bar>z\<bar>) (- 1022)"
  define u where "u = pow2 (E - 52)"
  define K where "K = round_half_even (\<bar>z\<bar> / u)"
  have upos: "0 < u" by (simp add: u_def pow2_pos)
  have zpos: "0 < \<bar>z\<bar>" using False by simp
  have K_lo: "0 \<le> K"
    unfolding K_def using zpos upos by (intro round_half_even_nonneg) simp
  from assms False have "Finite (sgn z * (real_of_int K * u)) = Finite d"
    by (simp add: round_to_double_nonzero K_def u_def E_def split: if_splits)
  then have "d = sgn z * (real_of_int K * u)" by simp
  then have "\<bar>d\<bar> = \<bar>sgn z\<bar> * \<bar>real_of_int K * u\<bar>" by (simp add: abs_mult)
  then have d: "\<bar>d\<bar> = real_of_int K * u"
    using False K_lo upos by (simp add: abs_mult sgn_real_def)
  show ?thesis
  proof (cases "- 7 \<le> E")
    case True
    define M where "M = K * 2 ^ nat (E + 7)"
    have "pow2 (E - 52) = pow2 (E + 7) * pow2 (- 59)"
      by (simp add: pow2_add [symmetric])
    moreover have "pow2 (E + 7) = 2 ^ nat (E + 7)" using True by (simp add: pow2_power)
    moreover have "pow2 (- 59) = 1 / 2 ^ 59" by (simp add: pow2_def)
    ultimately have "u = 2 ^ nat (E + 7) / 2 ^ 59" by (simp add: u_def)
    then have dM: "\<bar>d\<bar> = real_of_int M / 2 ^ 59" by (simp add: d M_def)
    have 1: "real_of_int M / 2 ^ 59 < 5764607523034235 / 2 ^ 59 \<longleftrightarrow> M < 5764607523034235"
      by (simp add: divide_less_cancel)
    have "real_of_int M / 2 ^ 59 < 1 / 100 \<longleftrightarrow> real_of_int (100 * M) < real_of_int (2 ^ 59)"
      by (simp add: field_simps)
    also have "\<dots> \<longleftrightarrow> 100 * M < 2 ^ 59" by (simp only: of_int_less_iff)
    also have "\<dots> \<longleftrightarrow> 100 * M < 576460752303423488" by simp
    also have "\<dots> \<longleftrightarrow> M < 5764607523034235" by linarith
    finally have 2: "real_of_int M / 2 ^ 59 < 1 / 100 \<longleftrightarrow> M < 5764607523034235" .
    from 1 2 show ?thesis by (simp only: dM)
  next
    case False
    then have E8: "E \<le> - 8" by simp
    then have e8: "floor_log2 \<bar>z\<bar> + 1 \<le> - 7" by (simp add: E_def)
    have "\<bar>z\<bar> < pow2 (floor_log2 \<bar>z\<bar> + 1)" using floor_log2_bounds [OF zpos] by simp
    moreover have "pow2 (floor_log2 \<bar>z\<bar> + 1) \<le> pow2 (- 7)" using e8 by (rule pow2_mono)
    ultimately have z7: "\<bar>z\<bar> < pow2 (- 7)" by linarith
    define B :: int where "B = 2 ^ nat (45 - E)"
    have "pow2 (45 - E) * pow2 (E - 52) = pow2 (- 7)"
      by (simp add: pow2_add [symmetric])
    moreover have "pow2 (45 - E) = real_of_int B"
      using E8 by (simp add: pow2_power B_def)
    ultimately have Bu: "real_of_int B * u = pow2 (- 7)" by (simp add: u_def)
    have "\<bar>z\<bar> / u < pow2 (- 7) / u"
      using z7 upos by (simp add: divide_strict_right_mono)
    also have "pow2 (- 7) / u = real_of_int B"
      using Bu upos by (simp add: field_simps)
    finally have "\<bar>z\<bar> / u \<le> real_of_int B" by simp
    then have "K \<le> B" unfolding K_def by (rule round_half_even_le)
    then have "real_of_int K \<le> real_of_int B" by (simp only: of_int_le_iff)
    then have "real_of_int K * u \<le> real_of_int B * u"
      using upos by (simp add: mult_right_mono)
    then have "\<bar>d\<bar> \<le> pow2 (- 7)" by (simp add: d Bu)
    moreover have "pow2 (- 7) = 1 / 128" by (simp add: pow2_def)
    ultimately have "\<bar>d\<bar> \<le> 1 / 128" by simp
    then show ?thesis by simp
  qed
qed

text \<open>The equations that evaluate a conversion or a rounding on a literal.\<close>

lemmas double_eval = round_to_double_def floor_log2_def bit_length_nonpos bit_length_pos pow2_def
  round_half_even_def Let_def

lemmas parse_eval = StringToNumber_def trim_white_space_def is_white_space_def
  NonDecimalIntegerLiteral_def StrDecimalLiteral_def StrUnsignedDecimalLiteral_MV_def
  mantissa_MV_def SignedInteger_def is_digits_def digits_value_def digit_of_def pow10_def

text \<open>The tolerance \<^verbatim>\<open>0.01\<close> as a double: a little above one hundredth.\<close>

lemma tolerance_value: "round_to_double (1 / 100) = Finite (5764607523034235 / 2 ^ 59)"
  by (simp add: double_eval)

lemma StringToNumber_examples:
  "StringToNumber ''abc'' = NaN"
  "StringToNumber ''5'' = Finite 5"
  "StringToNumber ''5.001'' = Finite (5630625434119963 / 2 ^ 50)"
  "StringToNumber ''5.02'' = Finite (1413004383087493 / 2 ^ 48)"
  by (simp_all add: parse_eval double_eval)

section \<open>Properties of GameState\<close>

lemma ropePosition_updateRopePosition:
  "ropePosition (updateRopePosition c s) =
     max (- 10) (min 10
       (if c then ropePosition s + (if currentPlayer s = 1 then - 1 else 1) * 2
        else ropePosition s - (if currentPlayer s = 1 then - 1 else 1) * 1))"
  by (simp add: updateRopePosition_def CORRECT_PULL_STRENGTH_def WRONG_PULL_STRENGTH_def
      Let_def)

lemma updateRopePosition_in_range:
  "- 10 \<le> ropePosition (updateRopePosition c s) \<and> ropePosition (updateRopePosition c s) \<le> 10"
  unfolding ropePosition_updateRopePosition by simp

lemma fold_updateRopePosition_in_range:
  "- 10 \<le> ropePosition s \<and> ropePosition s \<le> 10 \<Longrightarrow>
   - 10 \<le> ropePosition (fold updateRopePosition cs s) \<and>
   ropePosition (fold updateRopePosition cs s) \<le> 10"
proof (induction cs arbitrary: s)
  case Nil
  then show ?case by simp
next
  case (Cons c cs)
  show ?case
    using Cons.IH [OF updateRopePosition_in_range [of c s]] by simp
qed

text \<open>
  C1. \<^verbatim>\<open>updateRopePosition(isCorrect)\<close> moves the rope by \<open>direction * 2\<close> on a
  correct answer and by \<open>- direction * 1\<close> on a wrong one, where \<open>direction\<close> is \<open>-1\<close>
  for player 1 and \<open>+1\<close> for player 2, and clamps the result to \<open>[-10, 10]\<close>. Hence
  after one or more calls, from any rope position, the rope position is in \<open>[-10, 10]\<close>,
  and a rope position that starts in the range stays there under any sequence of calls,
  the empty one included.
\<close>

theorem C1_updateRopePosition:
  "(currentPlayer s = 1 \<longrightarrow>
      ropePosition (updateRopePosition True s)
        = max (- 10) (min 10 (ropePosition s + (- 1) * 2)) \<and>
      ropePosition (updateRopePosition False s)
        = max (- 10) (min 10 (ropePosition s - (- 1) * 1))) \<and>
   (currentPlayer s = 2 \<longrightarrow>
      ropePosition (updateRopePosition True s)
        = max (- 10) (min 10 (ropePosition s + 1 * 2)) \<and>
      ropePosition (updateRopePosition False s)
        = max (- 10) (min 10 (ropePosition s - 1 * 1))) \<and>
   (cs \<noteq> [] \<or> (- 10 \<le> ropePosition s \<and> ropePosition s \<le> 10) \<longrightarrow>
      - 10 \<le> ropePosition (fold updateRopePosition cs s) \<and>
      ropePosition (fold updateRopePosition cs s) \<le> 10)"
proof -
  have one: "currentPlayer s = 1 \<longrightarrow>
      ropePosition (updateRopePosition True s)
        = max (- 10) (min 10 (ropePosition s + (- 1) * 2)) \<and>
      ropePosition (updateRopePosition False s)
        = max (- 10) (min 10 (ropePosition s - (- 1) * 1))"
    by (simp add: ropePosition_updateRopePosition)
  have two: "currentPlayer s = 2 \<longrightarrow>
      ropePosition (updateRopePosition True s)
        = max (- 10) (min 10 (ropePosition s + 1 * 2)) \<and>
      ropePosition (updateRopePosition False s)
        = max (- 10) (min 10 (ropePosition s - 1 * 1))"
    by (simp add: ropePosition_updateRopePosition)
  have seq: "- 10 \<le> ropePosition (fold updateRopePosition cs s) \<and>
        ropePosition (fold updateRopePosition cs s) \<le> 10"
    if "cs \<noteq> [] \<or> (- 10 \<le> ropePosition s \<and> ropePosition s \<le> 10)"
  proof (cases cs)
    case Nil
    with that show ?thesis by simp
  next
    case (Cons c cs')
    show ?thesis
      using fold_updateRopePosition_in_range [OF updateRopePosition_in_range [of c s], of cs']
      by (simp add: Cons)
  qed
  from one two seq show ?thesis by blast
qed

text \<open>
  The theorem at the fresh state (player 1, rope at 0), at the same state after
  \<^const>\<open>switchPlayer\<close> (player 2), and on six correct answers in a row by player 1,
  which would reach \<open>-12\<close> without the clamp.
\<close>

theorem C1_updateRopePosition_witness:
  "currentPlayer new_GameState = 1 \<and>
   ropePosition (updateRopePosition True new_GameState) = - 2 \<and>
   ropePosition (updateRopePosition False new_GameState) = 1 \<and>
   currentPlayer (switchPlayer new_GameState) = 2 \<and>
   ropePosition (updateRopePosition True (switchPlayer new_GameState)) = 2 \<and>
   ropePosition (updateRopePosition False (switchPlayer new_GameState)) = - 1 \<and>
   [True, True, True, True, True, True] \<noteq> [] \<and>
   ropePosition (fold updateRopePosition [True, True, True, True, True, True] new_GameState)
     = - 10 \<and>
   - 10 \<le> ropePosition
       (fold updateRopePosition [True, True, True, True, True, True] new_GameState) \<and>
   ropePosition
       (fold updateRopePosition [True, True, True, True, True, True] new_GameState) \<le> 10"
  using C1_updateRopePosition [of new_GameState "[True, True, True, True, True, True]"]
    C1_updateRopePosition [of "switchPlayer new_GameState" "[]"]
  by (simp add: new_GameState_def switchPlayer_def updateRopePosition_def
      CORRECT_PULL_STRENGTH_def WRONG_PULL_STRENGTH_def)

text \<open>
  C2. \<^verbatim>\<open>checkWinCondition()\<close> returns \<^verbatim>\<open>player1\<close> exactly when the rope position is
  at most \<open>-8\<close>, \<^verbatim>\<open>player2\<close> exactly when it is at least \<open>8\<close>, and nothing exactly in
  between; a rope at \<open>-8\<close> gives \<^verbatim>\<open>player1\<close> and a rope at \<open>-7\<close> gives nothing.
\<close>

theorem C2_checkWinCondition:
  "(checkWinCondition s = Some ''player1'' \<longleftrightarrow> ropePosition s \<le> - 8) \<and>
   (checkWinCondition s = Some ''player2'' \<longleftrightarrow> ropePosition s \<ge> 8) \<and>
   (checkWinCondition s = None \<longleftrightarrow> - 8 < ropePosition s \<and> ropePosition s < 8) \<and>
   checkWinCondition (s\<lparr> ropePosition := - 8 \<rparr>) = Some ''player1'' \<and>
   checkWinCondition (s\<lparr> ropePosition := - 7 \<rparr>) = None"
  by (auto simp: checkWinCondition_def WIN_THRESHOLD_def)

lemma stats_updateStats:
  "stats (updateStats c t s) =
     \<lparr> totalQuestions = totalQuestions (stats s) + 1,
       correctAnswers = correctAnswers (stats s) + (if \<not> t \<and> c then 1 else 0),
       wrongAnswers = wrongAnswers (stats s) + (if \<not> t \<and> \<not> c then 1 else 0),
       timeouts = timeouts (stats s) + (if t then 1 else 0) \<rparr>"
  by (simp add: updateStats_def Let_def)

lemma stats_balanced_updateStats:
  "stats_balanced (stats s) \<Longrightarrow> stats_balanced (stats (updateStats c t s))"
  by (simp add: stats_balanced_def stats_updateStats)

lemma stats_balanced_fold_updateStats:
  "stats_balanced (stats s) \<Longrightarrow>
   stats_balanced (stats (fold (\<lambda>(c, t). updateStats c t) calls s))"
proof (induction calls arbitrary: s)
  case Nil
  then show ?case by simp
next
  case (Cons call calls)
  obtain c t where call: "call = (c, t)" by (cases call)
  from Cons.prems have "stats_balanced (stats (updateStats c t s))"
    by (rule stats_balanced_updateStats)
  then show ?case
    using Cons.IH by (simp add: call)
qed

text \<open>
  C3. One \<^verbatim>\<open>updateStats(isCorrect, isTimeout)\<close> adds 1 to \<^verbatim>\<open>totalQuestions\<close> and 1 to
  exactly one other counter: \<^verbatim>\<open>timeouts\<close> when \<^verbatim>\<open>isTimeout\<close> (whatever
  \<^verbatim>\<open>isCorrect\<close>), \<^verbatim>\<open>correctAnswers\<close> when not \<^verbatim>\<open>isTimeout\<close> and \<^verbatim>\<open>isCorrect\<close>,
  \<^verbatim>\<open>wrongAnswers\<close> otherwise. Starting from the all-zero statistics of a fresh state,
  after any sequence of calls
  \<^verbatim>\<open>totalQuestions = correctAnswers + wrongAnswers + timeouts\<close>.
\<close>

theorem C3_updateStats:
  "totalQuestions (stats (updateStats isCorrect isTimeout s))
     = totalQuestions (stats s) + 1 \<and>
   timeouts (stats (updateStats isCorrect isTimeout s))
     = timeouts (stats s) + (if isTimeout then 1 else 0) \<and>
   correctAnswers (stats (updateStats isCorrect isTimeout s))
     = correctAnswers (stats s) + (if \<not> isTimeout \<and> isCorrect then 1 else 0) \<and>
   wrongAnswers (stats (updateStats isCorrect isTimeout s))
     = wrongAnswers (stats s) + (if isTimeout \<or> isCorrect then 0 else 1) \<and>
   stats new_GameState
     = \<lparr> totalQuestions = 0, correctAnswers = 0, wrongAnswers = 0, timeouts = 0 \<rparr> \<and>
   (let st = stats (fold (\<lambda>(c, t). updateStats c t) calls new_GameState)
    in totalQuestions st = correctAnswers st + wrongAnswers st + timeouts st)"
proof -
  have "stats_balanced (stats new_GameState)"
    by (simp add: stats_balanced_def new_GameState_def)
  then have "stats_balanced (stats (fold (\<lambda>(c, t). updateStats c t) calls new_GameState))"
    by (rule stats_balanced_fold_updateStats)
  then show ?thesis
    by (simp add: stats_updateStats stats_balanced_def new_GameState_def Let_def)
qed

lemma ropePosition_updateStats: "ropePosition (updateStats c t s) = ropePosition s"
  by (simp add: updateStats_def Let_def)

lemma currentPlayer_updateStats: "currentPlayer (updateStats c t s) = currentPlayer s"
  by (simp add: updateStats_def Let_def)

lemma stats_updateRopePosition: "stats (updateRopePosition c s) = stats s"
  by (simp add: updateRopePosition_def Let_def)

lemma checkWinCondition_stats:
  "checkWinCondition (updateRopePosition c (updateStats c' t s))
     = checkWinCondition (updateRopePosition c s)"
  unfolding checkWinCondition_def ropePosition_updateRopePosition
    ropePosition_updateStats currentPlayer_updateStats by (rule refl)

lemma settings_updateSettings:
  "settings (updateSettings upd s) = merge_settings (settings s) upd"
  by (simp add: updateSettings_def)

section \<open>Properties of QuestionGenerator\<close>

lemma validateAnswer_absent:
  "userAnswer = JString '''' \<or> userAnswer = JNull \<or> userAnswer = JUndefined \<Longrightarrow>
   \<not> validateAnswer userAnswer correctAnswer"
  by (auto simp: validateAnswer_def)

lemma validateAnswer_NaN:
  "Number userAnswer = NaN \<Longrightarrow> \<not> validateAnswer userAnswer correctAnswer"
  by (simp add: validateAnswer_def isNaN_def Let_def)

text \<open>
  The comparison \<^verbatim>\<open>Math.abs(numericAnswer - correctAnswer) < 0.01\<close> holds exactly when
  both numbers are finite, their difference rounds to a finite double, and the absolute
  value of that double is below one hundredth.
\<close>

lemma compare_iff:
  "double_less (double_abs (double_sub n ca)) (Finite (5764607523034235 / 2 ^ 59)) \<longleftrightarrow>
     (\<exists>x e d. n = Finite x \<and> ca = Finite e \<and> round_to_double (x - e) = Finite d \<and>
        \<bar>d\<bar> < 1 / 100)"
proof (cases n)
  case (Finite x)
  show ?thesis
  proof (cases ca)
    case (Finite e)
    show ?thesis
    proof (cases "round_to_double (x - e)")
      case (Finite d)
      with tolerance_exact [OF Finite] show ?thesis
        by (simp add: \<open>n = Finite x\<close> \<open>ca = Finite e\<close>)
    qed (simp_all add: \<open>n = Finite x\<close> \<open>ca = Finite e\<close>)
  qed (simp_all add: Finite)
next
  case NaN
  then show ?thesis by simp
next
  case PosInfinity
  then show ?thesis by (cases ca) simp_all
next
  case NegInfinity
  then show ?thesis by (cases ca) simp_all
qed

lemma validateAnswer_iff:
  "validateAnswer userAnswer correctAnswer \<longleftrightarrow>
     userAnswer \<noteq> JString '''' \<and> userAnswer \<noteq> JNull \<and> userAnswer \<noteq> JUndefined \<and>
     (\<exists>parsed expected difference.
        Number userAnswer = Finite parsed \<and> correctAnswer = Finite expected \<and>
        round_to_double (parsed - expected) = Finite difference \<and>
        \<bar>difference\<bar> < 1 / 100)"
proof (cases "userAnswer = JString '''' \<or> userAnswer = JNull \<or> userAnswer = JUndefined")
  case True
  then show ?thesis by (auto simp: validateAnswer_def)
next
  case False
  show ?thesis
  proof (cases "Number userAnswer = NaN")
    case True
    then show ?thesis using False by (simp add: validateAnswer_def isNaN_def)
  next
    case nan: False
    have "validateAnswer userAnswer correctAnswer
        = double_less (double_abs (double_sub (Number userAnswer) correctAnswer))
            (Finite (5764607523034235 / 2 ^ 59))"
      using False nan by (simp add: validateAnswer_def isNaN_def tolerance_value Let_def)
    then show ?thesis
      using False by (simp only: compare_iff) simp
  qed
qed

text \<open>
  When the difference of the parsed and the expected value is itself a double, as it is
  for a parsed value close to the expected one, the test is the inequality on the exact
  difference.
\<close>

lemma validateAnswer_exact:
  assumes "userAnswer \<noteq> JString ''''" "userAnswer \<noteq> JNull"
    and "Number userAnswer = Finite parsed"
    and "is_double (parsed - expected)"
  shows "validateAnswer userAnswer (Finite expected) \<longleftrightarrow> \<bar>parsed - expected\<bar> < 1 / 100"
proof -
  from assms(3) have "userAnswer \<noteq> JUndefined" by (cases userAnswer) simp_all
  with assms show ?thesis
    by (simp add: validateAnswer_iff is_double_def)
qed

lemma validateAnswer_examples:
  "\<not> validateAnswer (JString '''') (Finite 5)"
  "\<not> validateAnswer JNull (Finite 5)"
  "\<not> validateAnswer (JString ''abc'') (Finite 5)"
  "validateAnswer (JString ''5'') (Finite 5)"
  "validateAnswer (JString ''5.001'') (Finite 5)"
  "\<not> validateAnswer (JString ''5.02'') (Finite 5)"
  by (simp_all add: validateAnswer_def isNaN_def StringToNumber_examples tolerance_value double_eval)

text \<open>Answers below the expected value, and the sign of the difference.\<close>

lemma StringToNumber_below:
  "StringToNumber ''4.995'' = Finite (5623870034678907 / 2 ^ 50)"
  "StringToNumber ''4.98'' = Finite (1401745384019067 / 2 ^ 48)"
  "StringToNumber ''4'' = Finite 4"
  "StringToNumber ''-100'' = Finite (- 100)"
  by (simp_all add: parse_eval double_eval)

lemma validateAnswer_below:
  "validateAnswer (JString ''4.995'') (Finite 5)"
  "\<not> validateAnswer (JString ''4.98'') (Finite 5)"
  "\<not> validateAnswer (JString ''4'') (Finite 5)"
  "\<not> validateAnswer (JString ''-100'') (Finite 5)"
  by (simp_all add: validateAnswer_def isNaN_def StringToNumber_below tolerance_value double_eval)

text \<open>
  C5. \<^verbatim>\<open>validateAnswer\<close> returns false when the input is the empty string, \<^verbatim>\<open>null\<close> or
  \<^verbatim>\<open>undefined\<close>, and when \<^verbatim>\<open>Number\<close> of it is \<^verbatim>\<open>NaN\<close>. Otherwise it returns true
  exactly when the parsed and the expected value are finite and the absolute value of
  their difference, as the double subtraction gives it, is below one hundredth; where
  that difference is exact, this is \<open>\<bar>parsed - expected\<bar> < 0.01\<close>. Against the expected
  value 5 it returns false for the empty string, for \<^verbatim>\<open>null\<close> and for \<^verbatim>\<open>abc\<close>, true for
  \<^verbatim>\<open>5\<close> and for \<^verbatim>\<open>5.001\<close>, and false for \<^verbatim>\<open>5.02\<close>; from below, true for
  \<^verbatim>\<open>4.995\<close> and false for \<^verbatim>\<open>4.98\<close>, \<^verbatim>\<open>4\<close> and \<^verbatim>\<open>-100\<close>.
\<close>

theorem C5_validateAnswer:
  "(userAnswer = JString '''' \<or> userAnswer = JNull \<or> userAnswer = JUndefined \<longrightarrow>
      \<not> validateAnswer userAnswer correctAnswer) \<and>
   (Number userAnswer = NaN \<longrightarrow> \<not> validateAnswer userAnswer correctAnswer) \<and>
   (validateAnswer userAnswer correctAnswer \<longleftrightarrow>
      userAnswer \<noteq> JString '''' \<and> userAnswer \<noteq> JNull \<and> userAnswer \<noteq> JUndefined \<and>
      (\<exists>parsed expected difference.
         Number userAnswer = Finite parsed \<and> correctAnswer = Finite expected \<and>
         round_to_double (parsed - expected) = Finite difference \<and>
         \<bar>difference\<bar> < 1 / 100)) \<and>
   (userAnswer \<noteq> JString '''' \<and> userAnswer \<noteq> JNull \<and> Number userAnswer = Finite x \<and>
    is_double (x - c) \<longrightarrow>
      (validateAnswer userAnswer (Finite c) \<longleftrightarrow> \<bar>x - c\<bar> < 1 / 100)) \<and>
   \<not> validateAnswer (JString '''') (Finite 5) \<and>
   \<not> validateAnswer JNull (Finite 5) \<and>
   \<not> validateAnswer (JString ''abc'') (Finite 5) \<and>
   validateAnswer (JString ''5'') (Finite 5) \<and>
   validateAnswer (JString ''5.001'') (Finite 5) \<and>
   \<not> validateAnswer (JString ''5.02'') (Finite 5) \<and>
   validateAnswer (JString ''4.995'') (Finite 5) \<and>
   \<not> validateAnswer (JString ''4.98'') (Finite 5) \<and>
   \<not> validateAnswer (JString ''4'') (Finite 5) \<and>
   \<not> validateAnswer (JString ''-100'') (Finite 5)"
proof -
  have absent: "userAnswer = JString '''' \<or> userAnswer = JNull \<or> userAnswer = JUndefined \<longrightarrow>
      \<not> validateAnswer userAnswer correctAnswer"
    using validateAnswer_absent by blast
  have nan: "Number userAnswer = NaN \<longrightarrow> \<not> validateAnswer userAnswer correctAnswer"
    using validateAnswer_NaN by blast
  have exact: "userAnswer \<noteq> JString '''' \<and> userAnswer \<noteq> JNull \<and>
      Number userAnswer = Finite x \<and> is_double (x - c) \<longrightarrow>
      (validateAnswer userAnswer (Finite c) \<longleftrightarrow> \<bar>x - c\<bar> < 1 / 100)"
    using validateAnswer_exact by blast
  note iff = validateAnswer_iff [of userAnswer correctAnswer]
  from absent nan iff exact validateAnswer_examples validateAnswer_below
  show ?thesis by (intro conjI)
qed

text \<open>
  The theorem at \<^verbatim>\<open>undefined\<close>, at a string that is no number, and at \<^verbatim>\<open>6.995\<close>
  and \<^verbatim>\<open>7.5e0\<close> against 7: the first is within a hundredth below, the second half a
  unit above, and both differences are exact.
\<close>

theorem C5_validateAnswer_witness:
  "\<not> validateAnswer JUndefined (Finite 7) \<and>
   Number (JString ''seven'') = NaN \<and>
   \<not> validateAnswer (JString ''seven'') (Finite 7) \<and>
   JString ''6.995'' \<noteq> JString '''' \<and> JString ''6.995'' \<noteq> JNull \<and>
   Number (JString ''6.995'') = Finite (7875669848364155 / 2 ^ 50) \<and>
   is_double (7875669848364155 / 2 ^ 50 - 7) \<and>
   \<bar>7875669848364155 / 2 ^ 50 - 7 :: real\<bar> < 1 / 100 \<and>
   validateAnswer (JString ''6.995'') (Finite 7) \<and>
   Number (JString ''7.5e0'') = Finite (15 / 2) \<and>
   is_double (15 / 2 - 7) \<and>
   \<not> \<bar>15 / 2 - 7 :: real\<bar> < 1 / 100 \<and>
   \<not> validateAnswer (JString ''7.5e0'') (Finite 7)"
proof -
  have seven: "Number (JString ''seven'') = NaN"
    by (simp add: parse_eval double_eval)
  have low: "Number (JString ''6.995'') = Finite (7875669848364155 / 2 ^ 50)"
    by (simp add: parse_eval double_eval)
  have low_exact: "is_double (7875669848364155 / 2 ^ 50 - 7)"
    by (simp add: is_double_def double_eval)
  have low_near: "\<bar>7875669848364155 / 2 ^ 50 - 7 :: real\<bar> < 1 / 100"
    by simp
  have high: "Number (JString ''7.5e0'') = Finite (15 / 2)"
    by (simp add: parse_eval double_eval)
  have high_exact: "is_double (15 / 2 - 7)"
    by (simp add: is_double_def double_eval)
  have high_far: "\<not> \<bar>15 / 2 - 7 :: real\<bar> < 1 / 100"
    by simp
  have w1: "\<not> validateAnswer JUndefined (Finite 7)"
    using C5_validateAnswer [of JUndefined "Finite 7" 0 0] by blast
  have w2: "\<not> validateAnswer (JString ''seven'') (Finite 7)"
    using C5_validateAnswer [of "JString ''seven''" "Finite 7" 0 0] seven by blast
  have ne: "JString ''6.995'' \<noteq> JString ''''" "JString ''6.995'' \<noteq> JNull"
    "JString ''7.5e0'' \<noteq> JString ''''" "JString ''7.5e0'' \<noteq> JNull"
    by simp_all
  have w3: "validateAnswer (JString ''6.995'') (Finite 7)"
    using C5_validateAnswer [of "JString ''6.995''" "Finite 7" "7875669848364155 / 2 ^ 50" 7]
      ne low low_exact low_near by blast
  have w4: "\<not> validateAnswer (JString ''7.5e0'') (Finite 7)"
    using C5_validateAnswer [of "JString ''7.5e0''" "Finite 7" "15 / 2" 7]
      ne high high_exact high_far by blast
  from seven low low_exact low_near high high_exact high_far w1 w2 w3 w4 ne
  show ?thesis by (intro conjI)
qed

text \<open>
  \<^verbatim>\<open>Math.floor(Math.random() * n)\<close> is one of \<open>0, \<dots>, n - 1\<close>: the draw is at most
  \<open>1 - 1 / 2 ^ 53\<close>, and the rounded product stays below \<open>n\<close>.
\<close>

lemma Math_floor_product_range:
  assumes "is_double r \<and> 0 \<le> r \<and> r < 1" and "1 \<le> n" and "n \<le> 2 ^ 52"
  shows "0 \<le> Math_floor_product r n \<and> Math_floor_product r n \<le> n - 1"
proof -
  from assms have "is_double r" "0 \<le> r" "r < 1" by simp_all
  from draw_product [OF this assms(2,3)]
  obtain y where "round_to_double (r * real_of_int n) = Finite y"
    "0 \<le> \<lfloor>y\<rfloor>" "\<lfloor>y\<rfloor> \<le> n - 1"
    by blast
  then show ?thesis by (simp add: Math_floor_product_def)
qed

lemma draws_are_doubles:
  "is_double 0 \<and> 0 \<le> (0::real) \<and> (0::real) < 1"
  "is_double (1 / 2) \<and> 0 \<le> (1 / 2 :: real) \<and> (1 / 2 :: real) < 1"
  "is_double (1 / 4) \<and> 0 \<le> (1 / 4 :: real) \<and> (1 / 4 :: real) < 1"
  "is_double double_0_7 \<and> 0 \<le> double_0_7 \<and> double_0_7 < 1"
  "is_double double_0_3 \<and> 0 \<le> double_0_3 \<and> double_0_3 < 1"
  "is_double double_11_12 \<and> 0 \<le> double_11_12 \<and> double_11_12 < 1"
  "is_double largest_draw \<and> 0 \<le> largest_draw \<and> largest_draw < 1"
  by (simp_all add: is_double_def double_0_7_def double_0_3_def double_11_12_def
      largest_draw_def double_eval)

lemma Math_floor_product_examples:
  "Math_floor_product 0 n = 0"
  "Math_floor_product (1 / 2) 9 = 4"
  "Math_floor_product (1 / 2) 10 = 5"
  "Math_floor_product (1 / 2) 50 = 25"
  "Math_floor_product (1 / 4) 4 = 1"
  "Math_floor_product double_0_7 10 = 7"
  "Math_floor_product double_0_3 10 = 3"
  "Math_floor_product double_11_12 12 = 11"
  "Math_floor_product largest_draw 9 = 8"
  "Math_floor_product largest_draw 10 = 9"
  "Math_floor_product largest_draw 12 = 11"
  "Math_floor_product largest_draw 20 = 19"
  "Math_floor_product largest_draw 30 = 29"
  "Math_floor_product largest_draw 50 = 49"
  "Math_floor_product largest_draw 100 = 99"
  by (simp_all add: Math_floor_product_def double_0_7_def double_0_3_def double_11_12_def
      largest_draw_def double_eval)

lemma division_draw_easy:
  assumes "is_double r1 \<and> 0 \<le> r1 \<and> r1 < 1" "is_double r2 \<and> 0 \<le> r2 \<and> r2 < 1"
  shows "2 \<le> fst (division_draw ''easy'' r1 r2) \<and> fst (division_draw ''easy'' r1 r2) \<le> 10 \<and>
         1 \<le> snd (division_draw ''easy'' r1 r2) \<and> snd (division_draw ''easy'' r1 r2) \<le> 10"
  using Math_floor_product_range [OF assms(1), of 9] Math_floor_product_range [OF assms(2), of 10]
  by (simp add: division_draw_def)

lemma division_draw_medium:
  assumes "is_double r1 \<and> 0 \<le> r1 \<and> r1 < 1" "is_double r2 \<and> 0 \<le> r2 \<and> r2 < 1"
  shows "2 \<le> fst (division_draw ''medium'' r1 r2) \<and> fst (division_draw ''medium'' r1 r2) \<le> 10 \<and>
         1 \<le> snd (division_draw ''medium'' r1 r2) \<and> snd (division_draw ''medium'' r1 r2) \<le> 20"
  using Math_floor_product_range [OF assms(1), of 9] Math_floor_product_range [OF assms(2), of 20]
  by (simp add: division_draw_def)

lemma division_draw_other:
  assumes "is_double r1 \<and> 0 \<le> r1 \<and> r1 < 1" "is_double r2 \<and> 0 \<le> r2 \<and> r2 < 1"
    and "d \<noteq> ''easy''" "d \<noteq> ''medium''"
  shows "2 \<le> fst (division_draw d r1 r2) \<and> fst (division_draw d r1 r2) \<le> 13 \<and>
         1 \<le> snd (division_draw d r1 r2) \<and> snd (division_draw d r1 r2) \<le> 30"
  using Math_floor_product_range [OF assms(1), of 12] Math_floor_product_range [OF assms(2), of 30]
    assms(3,4)
  by (simp add: division_draw_def)

lemma division_draw_divisor_pos:
  assumes "is_double r1 \<and> 0 \<le> r1 \<and> r1 < 1"
  shows "2 \<le> fst (division_draw d r1 r2)"
  using Math_floor_product_range [OF assms, of 9] Math_floor_product_range [OF assms, of 12]
  by (simp add: division_draw_def)

text \<open>The ends of the ranges are drawn: by the draw 0 and by the largest draw.\<close>

lemma division_draw_ends:
  "division_draw ''easy'' 0 0 = (2, 1)"
  "division_draw ''easy'' largest_draw largest_draw = (10, 10)"
  "division_draw ''medium'' 0 0 = (2, 1)"
  "division_draw ''medium'' largest_draw largest_draw = (10, 20)"
  "division_draw ''hard'' 0 0 = (2, 1)"
  "division_draw ''hard'' largest_draw largest_draw = (13, 30)"
  by (simp_all add: division_draw_def Math_floor_product_examples)

lemma getRandomNumber_ends:
  "getRandomNumber ''easy'' 0 = 1" "getRandomNumber ''easy'' largest_draw = 10"
  "getRandomNumber ''medium'' 0 = 1" "getRandomNumber ''medium'' largest_draw = 50"
  "getRandomNumber ''hard'' 0 = 1" "getRandomNumber ''hard'' largest_draw = 100"
  by (simp_all add: getRandomNumber_def difficultyRanges_def Math_floor_product_examples)

lemma generateDivision_fields:
  "text_of (generateDivision d r1 r2)
     = String_of (fst (division_draw d r1 r2) * snd (division_draw d r1 r2))
       @ [CHR '' '', CHR 0xF7, CHR '' ''] @ String_of (fst (division_draw d r1 r2))"
  "answer (generateDivision d r1 r2) = Some (snd (division_draw d r1 r2))"
  "operation_of (generateDivision d r1 r2) = ''division''"
  by (simp_all add: generateDivision_def Let_def split_beta)

lemma operation_of_generators:
  "operation_of (generateAddition d r1 r2) = ''addition''"
  "operation_of (generateSubtraction d r1 r2) = ''subtraction''"
  "operation_of (generateMultiplication d r1 r2) = ''multiplication''"
  by (simp_all add: generateAddition_def generateSubtraction_def generateMultiplication_def
      Let_def split_beta)

lemma generateQuestion_division:
  "operation_of (generateQuestion op d rop r1 r2) = ''division'' \<Longrightarrow>
   generateQuestion op d rop r1 r2 = generateDivision d r1 r2"
  by (simp add: generateQuestion_def Let_def operation_of_generators split: if_splits)

text \<open>
  C8. A division question draws a divisor and a quotient (easy: 2 to 10 and 1 to 10;
  medium: 2 to 10 and 1 to 20; hard: 2 to 13 and 1 to 30), shows
  \<open>dividend = divisor * quotient\<close> and the divisor, and records the quotient as the answer:
  the dividend is a multiple of the divisor and dividing it by the divisor gives the
  recorded answer. Every question that \<^verbatim>\<open>generateQuestion\<close> returns with the operation
  \<^verbatim>\<open>division\<close> is such a question. The draws are any doubles from 0 to below 1, the
  products are the rounded ones of the program, and both ends of each range are drawn.
\<close>

theorem C8_generateDivision:
  assumes "is_double r1 \<and> 0 \<le> r1 \<and> r1 < 1" and "is_double r2 \<and> 0 \<le> r2 \<and> r2 < 1"
  shows
    "(let divisor = fst (division_draw d r1 r2);
          quotient = snd (division_draw d r1 r2);
          dividend = divisor * quotient;
          q = generateDivision d r1 r2
      in (d = ''easy'' \<longrightarrow>
            2 \<le> divisor \<and> divisor \<le> 10 \<and> 1 \<le> quotient \<and> quotient \<le> 10) \<and>
         (d = ''medium'' \<longrightarrow>
            2 \<le> divisor \<and> divisor \<le> 10 \<and> 1 \<le> quotient \<and> quotient \<le> 20) \<and>
         (d = ''hard'' \<longrightarrow>
            2 \<le> divisor \<and> divisor \<le> 13 \<and> 1 \<le> quotient \<and> quotient \<le> 30) \<and>
         text_of q = String_of dividend @ [CHR '' '', CHR 0xF7, CHR '' ''] @ String_of divisor \<and>
         answer q = Some quotient \<and>
         operation_of q = ''division'' \<and>
         dividend mod divisor = 0 \<and>
         dividend div divisor = quotient \<and>
         real_of_int dividend / real_of_int divisor = real_of_int quotient \<and>
         (operation_of (generateQuestion op d rop r1 r2) = ''division'' \<longrightarrow>
            generateQuestion op d rop r1 r2 = q)) \<and>
     division_draw ''easy'' 0 0 = (2, 1) \<and>
     division_draw ''easy'' largest_draw largest_draw = (10, 10) \<and>
     division_draw ''medium'' 0 0 = (2, 1) \<and>
     division_draw ''medium'' largest_draw largest_draw = (10, 20) \<and>
     division_draw ''hard'' 0 0 = (2, 1) \<and>
     division_draw ''hard'' largest_draw largest_draw = (13, 30)"
proof -
  let ?divisor = "fst (division_draw d r1 r2)"
  let ?quotient = "snd (division_draw d r1 r2)"
  have pos: "2 \<le> ?divisor"
    using assms(1) by (rule division_draw_divisor_pos)
  have easy: "d = ''easy'' \<longrightarrow>
      2 \<le> ?divisor \<and> ?divisor \<le> 10 \<and> 1 \<le> ?quotient \<and> ?quotient \<le> 10"
    using division_draw_easy [OF assms] by blast
  have medium: "d = ''medium'' \<longrightarrow>
      2 \<le> ?divisor \<and> ?divisor \<le> 10 \<and> 1 \<le> ?quotient \<and> ?quotient \<le> 20"
    using division_draw_medium [OF assms] by blast
  have hard: "d = ''hard'' \<longrightarrow>
      2 \<le> ?divisor \<and> ?divisor \<le> 13 \<and> 1 \<le> ?quotient \<and> ?quotient \<le> 30"
    using division_draw_other [OF assms, of "''hard''"] by simp
  have exact: "(?divisor * ?quotient) mod ?divisor = 0 \<and>
      (?divisor * ?quotient) div ?divisor = ?quotient \<and>
      real_of_int (?divisor * ?quotient) / real_of_int ?divisor = real_of_int ?quotient"
    using pos by simp
  have gen: "operation_of (generateQuestion op d rop r1 r2) = ''division'' \<longrightarrow>
      generateQuestion op d rop r1 r2 = generateDivision d r1 r2"
    using generateQuestion_division by blast
  from easy medium hard exact gen division_draw_ends show ?thesis
    unfolding Let_def generateDivision_fields by blast
qed

text \<open>
  The theorem at the smallest and the largest draws of the easy level, at a medium draw,
  and at the hard level with the double nearest to 11/12, whose product with 12 rounds
  to 11 exactly, and the largest draw (390 divided by 13).
\<close>

theorem C8_generateDivision_witness:
  "(is_double 0 \<and> 0 \<le> (0::real) \<and> (0::real) < 1) \<and>
   (is_double (1 / 2) \<and> 0 \<le> (1 / 2 :: real) \<and> (1 / 2 :: real) < 1) \<and>
   (is_double double_11_12 \<and> 0 \<le> double_11_12 \<and> double_11_12 < 1) \<and>
   (is_double largest_draw \<and> 0 \<le> largest_draw \<and> largest_draw < 1) \<and>
   division_draw ''easy'' 0 0 = (2, 1) \<and>
   division_draw ''easy'' largest_draw largest_draw = (10, 10) \<and>
   division_draw ''medium'' (1 / 2) largest_draw = (6, 20) \<and>
   division_draw ''hard'' double_11_12 largest_draw = (13, 30) \<and>
   generateDivision ''hard'' double_11_12 largest_draw
     = \<lparr> text_of = [CHR ''3'', CHR ''9'', CHR ''0'', CHR '' '', CHR 0xF7, CHR '' '', CHR ''1'', CHR ''3''],
         answer = Some 30, operation_of = ''division'' \<rparr> \<and>
   (390::int) mod 13 = 0 \<and> (390::int) div 13 = 30 \<and>
   operation_of (generateQuestion ''division'' ''hard'' 0 double_11_12 largest_draw)
     = ''division'' \<and>
   answer (generateQuestion ''division'' ''hard'' 0 double_11_12 largest_draw) = Some 30"
  using C8_generateDivision [of 0 0 "''easy''" "''division''" 0]
    C8_generateDivision [of largest_draw largest_draw "''easy''" "''division''" 0]
    C8_generateDivision [of "1 / 2" largest_draw "''medium''" "''division''" 0]
    C8_generateDivision [of double_11_12 largest_draw "''hard''" "''division''" 0]
  by (simp add: draws_are_doubles Math_floor_product_examples division_draw_def
      generateDivision_def generateQuestion_def Let_def String_of_def digits_of.simps)

lemma getRandomNumber_range:
  assumes "is_double r \<and> 0 \<le> r \<and> r < 1"
  shows "1 \<le> getRandomNumber ''easy'' r \<and> getRandomNumber ''easy'' r \<le> 10"
    and "1 \<le> getRandomNumber ''medium'' r \<and> getRandomNumber ''medium'' r \<le> 50"
    and "1 \<le> getRandomNumber ''hard'' r \<and> getRandomNumber ''hard'' r \<le> 100"
  using Math_floor_product_range [OF assms, of 10] Math_floor_product_range [OF assms, of 50]
    Math_floor_product_range [OF assms, of 100]
  by (simp_all add: getRandomNumber_def difficultyRanges_def)

lemma subtraction_operands_max_min:
  "subtraction_operands d r1 r2
     = (max (getRandomNumber d r1) (getRandomNumber d r2),
        min (getRandomNumber d r1) (getRandomNumber d r2))"
  by (simp add: subtraction_operands_def Let_def max_def min_def)

lemma generateSubtraction_fields:
  "text_of (generateSubtraction d r1 r2)
     = String_of (fst (subtraction_operands d r1 r2)) @ '' - ''
       @ String_of (snd (subtraction_operands d r1 r2))"
  "answer (generateSubtraction d r1 r2)
     = Some (fst (subtraction_operands d r1 r2) - snd (subtraction_operands d r1 r2))"
  "operation_of (generateSubtraction d r1 r2) = ''subtraction''"
  by (simp_all add: generateSubtraction_def Let_def split_beta)

lemma generateQuestion_subtraction:
  "operation_of (generateQuestion op d rop r1 r2) = ''subtraction'' \<Longrightarrow>
   generateQuestion op d rop r1 r2 = generateSubtraction d r1 r2"
  by (simp add: generateQuestion_def Let_def operation_of_generators
      generateDivision_fields split: if_splits)

text \<open>
  C9. A subtraction question at the difficulty easy, medium or hard draws two operands
  from the difficulty's range and swaps them when the first is smaller, so the minuend is
  at least the subtrahend and the recorded answer, their difference, is not negative.
  Every question that \<^verbatim>\<open>generateQuestion\<close> returns with the operation
  \<^verbatim>\<open>subtraction\<close> is such a question. The draws are any doubles from 0 to below 1,
  the products are the rounded ones of the program, and both ends of each range (1 to
  10, 50 or 100) are drawn.
\<close>

theorem C9_generateSubtraction:
  assumes "d = ''easy'' \<or> d = ''medium'' \<or> d = ''hard''"
    and "is_double r1 \<and> 0 \<le> r1 \<and> r1 < 1" and "is_double r2 \<and> 0 \<le> r2 \<and> r2 < 1"
  shows
    "(let x = getRandomNumber d r1;
          y = getRandomNumber d r2;
          a = fst (subtraction_operands d r1 r2);
          b = snd (subtraction_operands d r1 r2);
          q = generateSubtraction d r1 r2
      in (x < y \<longrightarrow> a = y \<and> b = x) \<and>
         (\<not> x < y \<longrightarrow> a = x \<and> b = y) \<and>
         a \<ge> b \<and>
         1 \<le> b \<and>
         a \<le> (if d = ''easy'' then 10 else if d = ''medium'' then 50 else 100) \<and>
         text_of q = String_of a @ '' - '' @ String_of b \<and>
         answer q = Some (a - b) \<and>
         a - b \<ge> 0 \<and>
         operation_of q = ''subtraction'' \<and>
         (operation_of (generateQuestion op d rop r1 r2) = ''subtraction'' \<longrightarrow>
            generateQuestion op d rop r1 r2 = q)) \<and>
     getRandomNumber ''easy'' 0 = 1 \<and> getRandomNumber ''easy'' largest_draw = 10 \<and>
     getRandomNumber ''medium'' 0 = 1 \<and> getRandomNumber ''medium'' largest_draw = 50 \<and>
     getRandomNumber ''hard'' 0 = 1 \<and> getRandomNumber ''hard'' largest_draw = 100"
proof -
  let ?x = "getRandomNumber d r1" and ?y = "getRandomNumber d r2"
  let ?hi = "if d = ''easy'' then 10 else if d = ''medium'' then 50 else (100::int)"
  have x: "1 \<le> ?x \<and> ?x \<le> ?hi"
    using assms(1) getRandomNumber_range [OF assms(2)] by auto
  have y: "1 \<le> ?y \<and> ?y \<le> ?hi"
    using assms(1) getRandomNumber_range [OF assms(3)] by auto
  have ops: "fst (subtraction_operands d r1 r2) = max ?x ?y"
    "snd (subtraction_operands d r1 r2) = min ?x ?y"
    by (simp_all add: subtraction_operands_max_min)
  have gen: "operation_of (generateQuestion op d rop r1 r2) = ''subtraction'' \<longrightarrow>
      generateQuestion op d rop r1 r2 = generateSubtraction d r1 r2"
    using generateQuestion_subtraction by blast
  have order: "(?x < ?y \<longrightarrow> max ?x ?y = ?y \<and> min ?x ?y = ?x) \<and>
      (\<not> ?x < ?y \<longrightarrow> max ?x ?y = ?x \<and> min ?x ?y = ?y) \<and>
      max ?x ?y \<ge> min ?x ?y \<and> 1 \<le> min ?x ?y \<and> max ?x ?y \<le> ?hi \<and>
      max ?x ?y - min ?x ?y \<ge> 0"
    using x y by (simp add: max_def min_def)
  from order gen getRandomNumber_ends show ?thesis
    unfolding Let_def generateSubtraction_fields ops by blast
qed

text \<open>
  The theorem on the doubles nearest to 0.7 and 0.3, whose products with 10 round to 7
  and to a little above 3, so that the operands are 8 and 4: without a swap, with a
  swap, and through the mixed mode of \<^verbatim>\<open>generateQuestion\<close>; on equal operands; and on
  the smallest and the largest draw of the hard level.
\<close>

theorem C9_generateSubtraction_witness:
  "(is_double double_0_7 \<and> 0 \<le> double_0_7 \<and> double_0_7 < 1) \<and>
   (is_double double_0_3 \<and> 0 \<le> double_0_3 \<and> double_0_3 < 1) \<and>
   (is_double (1 / 2) \<and> 0 \<le> (1 / 2 :: real) \<and> (1 / 2 :: real) < 1) \<and>
   (is_double 0 \<and> 0 \<le> (0::real) \<and> (0::real) < 1) \<and>
   (is_double largest_draw \<and> 0 \<le> largest_draw \<and> largest_draw < 1) \<and>
   getRandomNumber ''easy'' double_0_7 = 8 \<and> getRandomNumber ''easy'' double_0_3 = 4 \<and>
   subtraction_operands ''easy'' double_0_7 (1 / 2) = (8, 6) \<and>
   subtraction_operands ''easy'' double_0_3 double_0_7 = (8, 4) \<and>
   generateSubtraction ''easy'' double_0_7 (1 / 2)
     = \<lparr> text_of = ''8 - 6'', answer = Some 2, operation_of = ''subtraction'' \<rparr> \<and>
   generateSubtraction ''easy'' double_0_3 double_0_7
     = \<lparr> text_of = ''8 - 4'', answer = Some 4, operation_of = ''subtraction'' \<rparr> \<and>
   generateQuestion ''mixed'' ''easy'' (1 / 4) double_0_3 double_0_7
     = \<lparr> text_of = ''8 - 4'', answer = Some 4, operation_of = ''subtraction'' \<rparr> \<and>
   generateSubtraction ''medium'' (1 / 2) (1 / 2)
     = \<lparr> text_of = ''26 - 26'', answer = Some 0, operation_of = ''subtraction'' \<rparr> \<and>
   generateSubtraction ''hard'' 0 largest_draw
     = \<lparr> text_of = ''100 - 1'', answer = Some 99, operation_of = ''subtraction'' \<rparr>"
  using C9_generateSubtraction [of "''easy''" double_0_7 "1 / 2" "''mixed''" "1 / 4"]
    C9_generateSubtraction [of "''easy''" double_0_3 double_0_7 "''mixed''" "1 / 4"]
    C9_generateSubtraction [of "''medium''" "1 / 2" "1 / 2" "''mixed''" "1 / 4"]
    C9_generateSubtraction [of "''hard''" 0 largest_draw "''mixed''" "1 / 4"]
  by (simp add: draws_are_doubles Math_floor_product_examples subtraction_operands_def
      generateSubtraction_def generateQuestion_def Let_def getRandomOperation_def
      getRandomNumber_def difficultyRanges_def String_of_def digits_of.simps)

section \<open>Properties of the controller\<close>

lemma processAnswer_stages:
  "processAnswer c ua g =
     (case checkWinCondition (gameState (answerRecorded c g)) of
        Some winner \<Rightarrow> handleWin winner (answerRecorded c g)
      | None \<Rightarrow>
          (case limitWinner (answerRecorded c g) of
             Some scoreWinner \<Rightarrow> handleWin scoreWinner (answerRecorded c g)
           | None \<Rightarrow>
               (answerRecorded c g)\<lparr> gameState := switchPlayer (gameState (answerRecorded c g)),
                 pendingNextQuestion := pendingNextQuestion (answerRecorded c g) + 1 \<rparr>))"
  unfolding processAnswer_def answerRecorded_def limitWinner_def Let_def by (rule refl)

lemma gameState_answerRecorded:
  "gameState (answerRecorded c g) = updateRopePosition c (updateStats c False (gameState g))"
  by (simp add: answerRecorded_def Let_def)

lemma scoreManager_answerRecorded:
  "scoreManager (answerRecorded c g) =
     (if c then updateScore (currentPlayer (gameState g)) 1 (scoreManager g) else scoreManager g)"
  by (simp add: answerRecorded_def Let_def updateStats_def)

lemma others_answerRecorded:
  "pendingNextQuestion (answerRecorded c g) = pendingNextQuestion g"
  "winOverlay (answerRecorded c g) = winOverlay g"
  by (simp_all add: answerRecorded_def Let_def)

lemma gameStatus_answerRecorded:
  "gameStatus (gameState (answerRecorded c g)) = gameStatus (gameState g)"
  by (simp add: gameState_answerRecorded updateRopePosition_def updateStats_def Let_def)

lemma currentPlayer_answerRecorded:
  "currentPlayer (gameState (answerRecorded c g)) = currentPlayer (gameState g)"
  by (simp add: gameState_answerRecorded updateRopePosition_def updateStats_def Let_def)

lemma settings_answerRecorded:
  "settings (gameState (answerRecorded c g)) = settings (gameState g)"
  by (simp add: gameState_answerRecorded updateRopePosition_def updateStats_def Let_def)

lemma gameState_handleWin: "gameState (handleWin w g) = end_game (gameState g)"
  by (simp add: handleWin_def stopTimer_def Let_def)

lemma winOverlay_handleWin: "winOverlay (handleWin w g) = Some (w, scoreManager g)"
  by (simp add: handleWin_def stopTimer_def Let_def)

lemma scoreManager_handleWin: "scoreManager (handleWin w g) = scoreManager g"
  by (simp add: handleWin_def stopTimer_def Let_def)

lemma stats_processAnswer:
  "stats (gameState (processAnswer c ua g)) = stats (updateStats c False (gameState g))"
  by (simp add: processAnswer_stages gameState_handleWin end_game_def switchPlayer_def
      gameState_answerRecorded stats_updateRopePosition split: option.split)

lemma stats_handleTimeout:
  "stats (gameState (handleTimeout g)) =
     \<lparr> totalQuestions = totalQuestions (stats (gameState g)) + 2,
       correctAnswers = correctAnswers (stats (gameState g)),
       wrongAnswers = wrongAnswers (stats (gameState g)) + 1,
       timeouts = timeouts (stats (gameState g)) + 1 \<rparr>"
  by (simp add: handleTimeout_def Let_def stats_processAnswer stats_updateStats stopTimer_def)

text \<open>The value of a game just started, with every draw 0: the question is \<^verbatim>\<open>1 + 1\<close>.\<close>

lemma startGame_value:
  "startGame 0 0 0 new_Game =
     \<lparr> gameState =
         \<lparr> currentPlayer = 1, ropePosition = 0,
           scores = \<lparr> player1 = 0, player2 = 0 \<rparr>,
           settings = default_settings,
           gameStatus = Playing,
           currentQuestion =
             \<lparr> text_of = ''1 + 1'', answer = Some 2, operation_of = ''addition'' \<rparr>,
           stats = \<lparr> totalQuestions = 0, correctAnswers = 0, wrongAnswers = 0, timeouts = 0 \<rparr> \<rparr>,
       scoreManager = \<lparr> player1 = 0, player2 = 0 \<rparr>, soundManager_enabled = True,
       timerInterval = True, timeRemaining = 20,
       settingsControlsDisabled = True, inputEnabled = True, winOverlay = None,
       pendingNextQuestion = 0 \<rparr>"
  by (simp add: startGame_def nextQuestion_def Let_def setSettingsEnabled_def start_def
      new_Game_def new_GameState_def new_ScoreManager_def default_settings_def startTimer_def
      stopTimer_def setCurrentQuestion_def generateQuestion_def getRandomOperation_def
      generateAddition_def getRandomNumber_def difficultyRanges_def String_of_def
      digits_of.simps Math_floor_product_def round_to_double_def)

lemma limit_game_value:
  "limit_game =
     \<lparr> gameState =
         \<lparr> currentPlayer = 1, ropePosition = 0,
           scores = \<lparr> player1 = 0, player2 = 0 \<rparr>,
           settings = default_settings\<lparr> questionLimitEnabled := True, questionLimit := 5 \<rparr>,
           gameStatus = Playing,
           currentQuestion =
             \<lparr> text_of = ''1 + 1'', answer = Some 2, operation_of = ''addition'' \<rparr>,
           stats = \<lparr> totalQuestions = 0, correctAnswers = 0, wrongAnswers = 0, timeouts = 0 \<rparr> \<rparr>,
       scoreManager = \<lparr> player1 = 0, player2 = 0 \<rparr>, soundManager_enabled = True,
       timerInterval = True, timeRemaining = 20,
       settingsControlsDisabled = True, inputEnabled = True, winOverlay = None,
       pendingNextQuestion = 0 \<rparr>"
  by (simp add: limit_game_def questionLimitInput_change_def questionLimitToggle_change_def
      updateSettings_def merge_settings_def no_update_def
      startGame_def nextQuestion_def Let_def setSettingsEnabled_def start_def
      new_Game_def new_GameState_def new_ScoreManager_def default_settings_def startTimer_def
      stopTimer_def setCurrentQuestion_def generateQuestion_def getRandomOperation_def
      generateAddition_def getRandomNumber_def difficultyRanges_def String_of_def
      digits_of.simps Math_floor_product_def round_to_double_def)

text \<open>
  C4. A question that times out is recorded twice: \<^verbatim>\<open>handleTimeout\<close> calls
  \<^verbatim>\<open>updateStats(false, true)\<close> and then \<^verbatim>\<open>processAnswer(false, '(timeout)')\<close> calls
  \<^verbatim>\<open>updateStats(false)\<close>, so \<^verbatim>\<open>totalQuestions\<close> grows by 2, \<^verbatim>\<open>timeouts\<close> by 1 and
  \<^verbatim>\<open>wrongAnswers\<close> by 1, and \<^verbatim>\<open>correctAnswers\<close> stays. This is what the countdown's tick
  does when it reaches zero while the game is playing.
\<close>

theorem C4_timeout_counted_twice:
  "stats (gameState (handleTimeout g)) =
     \<lparr> totalQuestions = totalQuestions (stats (gameState g)) + 2,
       correctAnswers = correctAnswers (stats (gameState g)),
       wrongAnswers = wrongAnswers (stats (gameState g)) + 1,
       timeouts = timeouts (stats (gameState g)) + 1 \<rparr> \<and>
   (gameStatus (gameState g) = Playing \<and> timerInterval g \<and> timeRemaining g \<le> 1 \<longrightarrow>
      stats (gameState (timerTick g)) =
        \<lparr> totalQuestions = totalQuestions (stats (gameState g)) + 2,
          correctAnswers = correctAnswers (stats (gameState g)),
          wrongAnswers = wrongAnswers (stats (gameState g)) + 1,
          timeouts = timeouts (stats (gameState g)) + 1 \<rparr>)"
proof -
  have "stats (gameState (timerTick g)) = stats (gameState (handleTimeout g))"
    if "timerInterval g" "timeRemaining g \<le> 1"
    using that by (simp add: timerTick_def Let_def stats_handleTimeout)
  then show ?thesis
    by (simp add: stats_handleTimeout)
qed

text \<open>The theorem at a started game with one second left on the countdown.\<close>

theorem C4_timeout_counted_twice_witness:
  "gameStatus (gameState ticking_game) = Playing \<and> timerInterval ticking_game \<and>
   timeRemaining ticking_game \<le> 1 \<and>
   stats (gameState ticking_game)
     = \<lparr> totalQuestions = 0, correctAnswers = 0, wrongAnswers = 0, timeouts = 0 \<rparr> \<and>
   stats (gameState (timerTick ticking_game))
     = \<lparr> totalQuestions = 2, correctAnswers = 0, wrongAnswers = 1, timeouts = 1 \<rparr>"
  using C4_timeout_counted_twice [of ticking_game]
  by (simp add: ticking_game_def startGame_value)

lemma limitWinner_answerRecorded:
  "limitWinner (answerRecorded c g) =
     (if questionLimitEnabled (settings (gameState g)) \<and>
         totalQuestions (stats (gameState g)) + 1 \<ge> questionLimit (settings (gameState g)) \<and>
         determineWinner (scoreManager (answerRecorded c g)) \<noteq> ''tie''
      then Some (determineWinner (scoreManager (answerRecorded c g))) else None)"
  by (simp add: limitWinner_def gameState_answerRecorded updateRopePosition_def Let_def
      stats_updateStats updateStats_def)

lemma determineWinner_cases:
  "(player1 sc > player2 sc \<longrightarrow> determineWinner sc = ''player1'') \<and>
   (player2 sc > player1 sc \<longrightarrow> determineWinner sc = ''player2'') \<and>
   (player1 sc = player2 sc \<longrightarrow> determineWinner sc = ''tie'')"
  by (simp add: determineWinner_def)

lemma processAnswer_at_limit:
  assumes "questionLimitEnabled (settings (gameState g))"
    and "totalQuestions (stats (gameState g)) + 1 \<ge> questionLimit (settings (gameState g))"
    and "checkWinCondition (updateRopePosition c (gameState g)) = None"
  shows "processAnswer c ua g =
     (if determineWinner (scoreManager (answerRecorded c g)) = ''tie''
      then (answerRecorded c g)\<lparr> gameState := switchPlayer (gameState (answerRecorded c g)),
                 pendingNextQuestion := pendingNextQuestion (answerRecorded c g) + 1 \<rparr>
      else handleWin (determineWinner (scoreManager (answerRecorded c g))) (answerRecorded c g))"
proof -
  have "checkWinCondition (gameState (answerRecorded c g)) = None"
    using assms(3) by (simp add: gameState_answerRecorded checkWinCondition_stats)
  then show ?thesis
    using assms(1,2) by (simp add: processAnswer_stages limitWinner_answerRecorded)
qed

lemma nextQuestionCallback_question:
  "0 < pendingNextQuestion g \<Longrightarrow> gameStatus (gameState g) = Playing \<Longrightarrow>
   currentQuestion (gameState (nextQuestionCallback rop r1 r2 g))
     = generateQuestion (operation (settings (gameState g)))
         (difficulty (settings (gameState g))) rop r1 r2"
  by (simp add: nextQuestionCallback_def nextQuestion_def Let_def setCurrentQuestion_def
      startTimer_def stopTimer_def)

text \<open>
  C6. In \<^verbatim>\<open>processAnswer\<close> during play, when the question limit is enabled, the number
  of questions (counted with the one being resolved) has reached the limit and the rope
  gives no winner: if the scores, after this answer is scored, differ, the game is ended
  and the win overlay names the player with the higher score; if they are equal, the game
  stays playing, the turn passes to the other player, and the scheduled callback presents
  the next question.
\<close>

theorem C6_question_limit:
  assumes "gameStatus (gameState g) = Playing"
    and "questionLimitEnabled (settings (gameState g))"
    and "totalQuestions (stats (gameState g)) + 1 \<ge> questionLimit (settings (gameState g))"
    and "checkWinCondition (updateRopePosition isCorrect (gameState g)) = None"
  shows
    "scoreManager (processAnswer isCorrect userAnswer g)
       = (if isCorrect then updateScore (currentPlayer (gameState g)) 1 (scoreManager g)
          else scoreManager g) \<and>
     (player1 (scoreManager (processAnswer isCorrect userAnswer g))
        > player2 (scoreManager (processAnswer isCorrect userAnswer g)) \<longrightarrow>
        gameStatus (gameState (processAnswer isCorrect userAnswer g)) = Ended \<and>
        winOverlay (processAnswer isCorrect userAnswer g)
          = Some (''player1'', scoreManager (processAnswer isCorrect userAnswer g))) \<and>
     (player2 (scoreManager (processAnswer isCorrect userAnswer g))
        > player1 (scoreManager (processAnswer isCorrect userAnswer g)) \<longrightarrow>
        gameStatus (gameState (processAnswer isCorrect userAnswer g)) = Ended \<and>
        winOverlay (processAnswer isCorrect userAnswer g)
          = Some (''player2'', scoreManager (processAnswer isCorrect userAnswer g))) \<and>
     (player1 (scoreManager (processAnswer isCorrect userAnswer g))
        = player2 (scoreManager (processAnswer isCorrect userAnswer g)) \<longrightarrow>
        gameStatus (gameState (processAnswer isCorrect userAnswer g)) = Playing \<and>
        winOverlay (processAnswer isCorrect userAnswer g) = winOverlay g \<and>
        currentPlayer (gameState (processAnswer isCorrect userAnswer g))
          = (if currentPlayer (gameState g) = 1 then 2 else 1) \<and>
        pendingNextQuestion (processAnswer isCorrect userAnswer g)
          = pendingNextQuestion g + 1 \<and>
        currentQuestion
            (gameState (nextQuestionCallback rop r1 r2 (processAnswer isCorrect userAnswer g)))
          = generateQuestion (operation (settings (gameState g)))
              (difficulty (settings (gameState g))) rop r1 r2)"
proof -
  let ?a = "answerRecorded isCorrect g"
  let ?g' = "processAnswer isCorrect userAnswer g"
  have pa: "?g' =
     (if determineWinner (scoreManager ?a) = ''tie''
      then ?a\<lparr> gameState := switchPlayer (gameState ?a),
                 pendingNextQuestion := pendingNextQuestion ?a + 1 \<rparr>
      else handleWin (determineWinner (scoreManager ?a)) ?a)"
    using assms(2-4) by (rule processAnswer_at_limit)
  have sc: "scoreManager ?g' = scoreManager ?a"
    by (simp add: pa scoreManager_handleWin)
  have sc': "scoreManager ?a = (if isCorrect
       then updateScore (currentPlayer (gameState g)) 1 (scoreManager g) else scoreManager g)"
    by (rule scoreManager_answerRecorded)
  have p1: "gameStatus (gameState ?g') = Ended \<and> winOverlay ?g' = Some (''player1'', scoreManager ?g')"
    if "player1 (scoreManager ?g') > player2 (scoreManager ?g')"
  proof -
    from that have "determineWinner (scoreManager ?a) = ''player1''"
      by (simp add: sc determineWinner_def)
    then have "?g' = handleWin ''player1'' ?a"
      by (simp add: pa)
    then show ?thesis
      by (simp add: gameState_handleWin winOverlay_handleWin scoreManager_handleWin end_game_def)
  qed
  have p2: "gameStatus (gameState ?g') = Ended \<and> winOverlay ?g' = Some (''player2'', scoreManager ?g')"
    if "player2 (scoreManager ?g') > player1 (scoreManager ?g')"
  proof -
    from that have "determineWinner (scoreManager ?a) = ''player2''"
      by (simp add: sc determineWinner_def)
    then have "?g' = handleWin ''player2'' ?a"
      by (simp add: pa)
    then show ?thesis
      by (simp add: gameState_handleWin winOverlay_handleWin scoreManager_handleWin end_game_def)
  qed
  have tie: "gameStatus (gameState ?g') = Playing \<and>
        winOverlay ?g' = winOverlay g \<and>
        currentPlayer (gameState ?g') = (if currentPlayer (gameState g) = 1 then 2 else 1) \<and>
        pendingNextQuestion ?g' = pendingNextQuestion g + 1 \<and>
        currentQuestion (gameState (nextQuestionCallback rop r1 r2 ?g'))
          = generateQuestion (operation (settings (gameState g)))
              (difficulty (settings (gameState g))) rop r1 r2"
    if "player1 (scoreManager ?g') = player2 (scoreManager ?g')"
  proof -
    from that have "determineWinner (scoreManager ?a) = ''tie''"
      by (simp add: sc determineWinner_def)
    then have eq: "?g' = ?a\<lparr> gameState := switchPlayer (gameState ?a),
                 pendingNextQuestion := pendingNextQuestion ?a + 1 \<rparr>"
      by (simp add: pa)
    have st: "gameStatus (gameState ?g') = Playing"
      by (simp add: eq switchPlayer_def gameStatus_answerRecorded assms(1))
    have pend: "pendingNextQuestion ?g' = pendingNextQuestion g + 1"
      by (simp add: eq others_answerRecorded)
    have setts: "settings (gameState ?g') = settings (gameState g)"
      by (simp add: eq switchPlayer_def settings_answerRecorded)
    have "currentQuestion (gameState (nextQuestionCallback rop r1 r2 ?g'))
          = generateQuestion (operation (settings (gameState ?g')))
              (difficulty (settings (gameState ?g'))) rop r1 r2"
      by (rule nextQuestionCallback_question) (simp_all add: pend st)
    moreover have "winOverlay ?g' = winOverlay g"
      by (simp add: eq others_answerRecorded)
    moreover have "currentPlayer (gameState ?g') = (if currentPlayer (gameState g) = 1 then 2 else 1)"
      by (simp add: eq switchPlayer_def currentPlayer_answerRecorded)
    ultimately show ?thesis
      using st pend by (simp add: setts)
  qed
  from sc sc' p1 p2 tie show ?thesis by presburger
qed

text \<open>
  The theorem at the fifth question of a game limited to five, with the scores at 2 - 2:
  a wrong answer leaves a tie and the game goes on, a correct answer by player 1 ends it
  for player 1; and with the scores at 2 - 3 a wrong answer ends it for player 2.
\<close>

theorem C6_question_limit_witness:
  "gameStatus (gameState tied_at_limit) = Playing \<and>
   questionLimitEnabled (settings (gameState tied_at_limit)) \<and>
   questionLimit (settings (gameState tied_at_limit)) = 5 \<and>
   totalQuestions (stats (gameState tied_at_limit)) = 4 \<and>
   checkWinCondition (updateRopePosition False (gameState tied_at_limit)) = None \<and>
   checkWinCondition (updateRopePosition True (gameState tied_at_limit)) = None \<and>
   scoreManager (processAnswer False ''7'' tied_at_limit) = \<lparr> player1 = 2, player2 = 2 \<rparr> \<and>
   gameStatus (gameState (processAnswer False ''7'' tied_at_limit)) = Playing \<and>
   currentPlayer (gameState (processAnswer False ''7'' tied_at_limit)) = 2 \<and>
   pendingNextQuestion (processAnswer False ''7'' tied_at_limit) = 1 \<and>
   currentQuestion (gameState
       (nextQuestionCallback (1/2) 0 (1/2) (processAnswer False ''7'' tied_at_limit)))
     = generateQuestion ''mixed'' ''medium'' (1/2) 0 (1/2) \<and>
   scoreManager (processAnswer True ''2'' tied_at_limit) = \<lparr> player1 = 3, player2 = 2 \<rparr> \<and>
   gameStatus (gameState (processAnswer True ''2'' tied_at_limit)) = Ended \<and>
   winOverlay (processAnswer True ''2'' tied_at_limit)
     = Some (''player1'', \<lparr> player1 = 3, player2 = 2 \<rparr>) \<and>
   scoreManager (processAnswer False ''7''
       (tied_at_limit\<lparr> scoreManager := \<lparr> player1 = 2, player2 = 3 \<rparr> \<rparr>))
     = \<lparr> player1 = 2, player2 = 3 \<rparr> \<and>
   gameStatus (gameState (processAnswer False ''7''
       (tied_at_limit\<lparr> scoreManager := \<lparr> player1 = 2, player2 = 3 \<rparr> \<rparr>))) = Ended \<and>
   winOverlay (processAnswer False ''7''
       (tied_at_limit\<lparr> scoreManager := \<lparr> player1 = 2, player2 = 3 \<rparr> \<rparr>))
     = Some (''player2'', \<lparr> player1 = 2, player2 = 3 \<rparr>)"
  using C6_question_limit [of tied_at_limit False "''7''" "1/2" 0 "1/2"]
    C6_question_limit [of tied_at_limit True "''2''" "1/2" 0 "1/2"]
    C6_question_limit [of "tied_at_limit\<lparr> scoreManager := \<lparr> player1 = 2, player2 = 3 \<rparr> \<rparr>"
      False "''7''" "1/2" 0 "1/2"]
  by (simp add: tied_at_limit_def limit_game_value default_settings_def checkWinCondition_def
      ropePosition_updateRopePosition WIN_THRESHOLD_def updateScore_def)

text \<open>
  C7 (amended). \<^verbatim>\<open>updateSettings\<close> merges the keys it is given into the settings in
  every round status and leaves the status alone. The listeners of the two number inputs
  reject a value that does not parse or lies outside the range (5 to 60 for the timer
  value, 5 to 100 for the question limit), leaving the whole game as it was, and store a
  value inside the range in that one setting. What the game does against edits during a
  round is to disable settings controls: \<^verbatim>\<open>startGame\<close> leaves the four controls of
  \<^verbatim>\<open>_setSettingsEnabled\<close> disabled and \<^verbatim>\<open>resetGame\<close> leaves them enabled.
\<close>

theorem C7_settings_updates:
  "settings (updateSettings upd s) = merge_settings (settings s) upd \<and>
   gameStatus (updateSettings upd s) = gameStatus s \<and>
   timerValueInput_change None g = g \<and>
   (v < 5 \<or> 60 < v \<longrightarrow> timerValueInput_change (Some v) g = g) \<and>
   (5 \<le> v \<and> v \<le> 60 \<longrightarrow>
      settings (gameState (timerValueInput_change (Some v) g))
        = (settings (gameState g))\<lparr> timerValue := v \<rparr>) \<and>
   questionLimitInput_change None g = g \<and>
   (v < 5 \<or> 100 < v \<longrightarrow> questionLimitInput_change (Some v) g = g) \<and>
   (5 \<le> v \<and> v \<le> 100 \<longrightarrow>
      settings (gameState (questionLimitInput_change (Some v) g))
        = (settings (gameState g))\<lparr> questionLimit := v \<rparr>) \<and>
   settingsControlsDisabled (startGame rop r1 r2 g) \<and>
   \<not> settingsControlsDisabled (resetGame g)"
proof -
  have upd: "settings (updateSettings upd s) = merge_settings (settings s) upd \<and>
      gameStatus (updateSettings upd s) = gameStatus s"
    by (simp add: updateSettings_def)
  have timer: "timerValueInput_change None g = g \<and>
      (v < 5 \<or> 60 < v \<longrightarrow> timerValueInput_change (Some v) g = g) \<and>
      (5 \<le> v \<and> v \<le> 60 \<longrightarrow>
         settings (gameState (timerValueInput_change (Some v) g))
           = (settings (gameState g))\<lparr> timerValue := v \<rparr>)"
    by (auto simp: timerValueInput_change_def updateSettings_def merge_settings_def no_update_def)
  have limit: "questionLimitInput_change None g = g \<and>
      (v < 5 \<or> 100 < v \<longrightarrow> questionLimitInput_change (Some v) g = g) \<and>
      (5 \<le> v \<and> v \<le> 100 \<longrightarrow>
         settings (gameState (questionLimitInput_change (Some v) g))
           = (settings (gameState g))\<lparr> questionLimit := v \<rparr>)"
    by (auto simp: questionLimitInput_change_def updateSettings_def merge_settings_def
        no_update_def)
  have controls: "settingsControlsDisabled (startGame rop r1 r2 g) \<and>
      \<not> settingsControlsDisabled (resetGame g)"
    by (simp add: startGame_def resetGame_def nextQuestion_def startTimer_def stopTimer_def
        setSettingsEnabled_def Let_def)
  from upd timer limit controls show ?thesis by blast
qed

text \<open>The theorem at a fresh game, on the values 4, 101 and 30.\<close>

theorem C7_settings_updates_witness:
  "gameStatus (gameState new_Game) = Idle \<and>
   timerValue (settings (gameState new_Game)) = 20 \<and>
   questionLimit (settings (gameState new_Game)) = 40 \<and>
   ((4::int) < 5 \<or> 60 < (4::int)) \<and>
   timerValueInput_change (Some 4) new_Game = new_Game \<and>
   questionLimitInput_change (Some 4) new_Game = new_Game \<and>
   ((101::int) < 5 \<or> 100 < (101::int)) \<and>
   timerValueInput_change (Some 101) new_Game = new_Game \<and>
   questionLimitInput_change (Some 101) new_Game = new_Game \<and>
   (5 \<le> (30::int) \<and> (30::int) \<le> 60) \<and>
   timerValue (settings (gameState (timerValueInput_change (Some 30) new_Game))) = 30 \<and>
   questionLimit (settings (gameState (questionLimitInput_change (Some 30) new_Game))) = 30"
  using C7_settings_updates [of no_update new_GameState new_Game 4 0 0 0]
    C7_settings_updates [of no_update new_GameState new_Game 101 0 0 0]
    C7_settings_updates [of no_update new_GameState new_Game 30 0 0 0]
  by (simp add: new_Game_def new_GameState_def default_settings_def)

text \<open>
  C7 as stated fails: in a started game (status playing) the sound toggle updates the
  setting \<^verbatim>\<open>soundEnabled\<close>.
\<close>

theorem C7_update_while_playing:
  "gameStatus (gameState (startGame 0 0 0 new_Game)) = Playing \<and>
   settings (gameState (startGame 0 0 0 new_Game)) = default_settings \<and>
   gameStatus (gameState (toggleSound (startGame 0 0 0 new_Game))) = Playing \<and>
   settings (gameState (toggleSound (startGame 0 0 0 new_Game)))
     = default_settings\<lparr> soundEnabled := False \<rparr> \<and>
   settings (gameState (toggleSound (startGame 0 0 0 new_Game)))
     \<noteq> settings (gameState (startGame 0 0 0 new_Game))"
  by (simp add: startGame_value toggleSound_def updateSettings_def merge_settings_def
      no_update_def default_settings_def Let_def)

text \<open>
  C10. \<^verbatim>\<open>reset()\<close>, which \<^verbatim>\<open>resetGame()\<close> calls on the game state, assigns every
  field its default, the settings included (difficulty medium, operation mixed, timer
  enabled at 20 seconds, sound enabled, no question limit, limit value 40): settings
  chosen before the reset are gone after it.
\<close>

theorem C10_reset_discards_settings:
  "reset s =
     \<lparr> currentPlayer = 1, ropePosition = 0,
       scores = \<lparr> player1 = 0, player2 = 0 \<rparr>,
       settings =
         \<lparr> difficulty = ''medium'', operation = ''mixed'', timerEnabled = True,
           timerValue = 20, soundEnabled = True, questionLimitEnabled = False,
           questionLimit = 40, teacherMode = None \<rparr>,
       gameStatus = Idle,
       currentQuestion = \<lparr> text_of = '''', answer = None, operation_of = '''' \<rparr>,
       stats = \<lparr> totalQuestions = 0, correctAnswers = 0, wrongAnswers = 0, timeouts = 0 \<rparr> \<rparr> \<and>
   gameState (resetGame g) = reset (gameState g) \<and>
   settings (gameState (resetGame g)) =
     \<lparr> difficulty = ''medium'', operation = ''mixed'', timerEnabled = True,
       timerValue = 20, soundEnabled = True, questionLimitEnabled = False,
       questionLimit = 40, teacherMode = None \<rparr> \<and>
   settings (gameState (resetGame (difficultySelect_change ''hard''
       (questionLimitInput_change (Some 10) (timerToggle_change False g))))) =
     \<lparr> difficulty = ''medium'', operation = ''mixed'', timerEnabled = True,
       timerValue = 20, soundEnabled = True, questionLimitEnabled = False,
       questionLimit = 40, teacherMode = None \<rparr> \<and>
   difficulty (settings (gameState (difficultySelect_change ''hard'' g))) = ''hard''"
proof -
  have r: "gameState (resetGame g') = new_GameState" for g'
    by (simp add: resetGame_def Let_def setSettingsEnabled_def reset_def stopTimer_def)
  have "difficulty (settings (gameState (difficultySelect_change ''hard'' g))) = ''hard''"
    by (simp add: difficultySelect_change_def updateSettings_def merge_settings_def no_update_def)
  then show ?thesis
    by (simp add: r reset_def new_GameState_def default_settings_def)
qed

end
